theory Spec2Isabelle
  imports Complex_Main "HOL-Library.Finite_Map" "HOL-Library.Monad_Syntax"
begin

section \<open>Python string primitives\<close>

text \<open>
  A Python \<open>str\<close> is modelled as a \<open>string\<close> whose characters are the code points
  below 256. \<open>isspace\<close> lists the code points in that range for which Python's
  \<open>str.isspace\<close> holds; \<open>str.split()\<close>, \<open>str.strip()\<close> and the regular
  expression class \<open>\s\<close> all use it.
\<close>

definition isspace :: "char \<Rightarrow> bool" where
  "isspace c \<longleftrightarrow> c \<in> set [CHR 0x09, CHR 0x0A, CHR 0x0B, CHR 0x0C, CHR 0x0D,
     CHR 0x1C, CHR 0x1D, CHR 0x1E, CHR 0x1F, CHR 0x20, CHR 0x85, CHR 0xA0]"

text \<open>\<open>s.split()\<close>: skip whitespace, read a word up to the next whitespace, repeat.\<close>

function split_ws :: "string \<Rightarrow> string list" where
  "split_ws s =
     (case dropWhile isspace s of
        [] \<Rightarrow> []
      | c # cs \<Rightarrow> takeWhile (\<lambda>x. \<not> isspace x) (c # cs)
                 # split_ws (dropWhile (\<lambda>x. \<not> isspace x) (c # cs)))"
  by pat_completeness auto
termination
proof (relation "measure length")
  show "wf (measure length)" by simp
next
  fix s :: string and c cs
  assume d: "dropWhile isspace s = c # cs"
  have "c \<in> set (dropWhile isspace s)" using d by simp
  have nc: "\<not> isspace c" using d hd_dropWhile [of isspace s] by auto
  have "length (dropWhile (\<lambda>x. \<not> isspace x) (c # cs)) \<le> length cs"
    using nc by (simp add: length_dropWhile_le)
  also have "length cs < length (dropWhile isspace s)" using d by simp
  also have "\<dots> \<le> length s" by (rule length_dropWhile_le)
  finally show "(dropWhile (\<lambda>x. \<not> isspace x) (c # cs), s) \<in> measure length" by simp
qed

declare split_ws.simps [simp del]

text \<open>\<open>sep.join(ws)\<close>\<close>

fun join :: "string \<Rightarrow> string list \<Rightarrow> string" where
  "join sep [] = []"
| "join sep [w] = w"
| "join sep (w # v # ws) = w @ sep @ join sep (v # ws)"

text \<open>\<open>s.strip()\<close>: drop the leading and the trailing whitespace.\<close>

definition strip :: "string \<Rightarrow> string" where
  "strip s = rev (dropWhile isspace (rev (dropWhile isspace s)))"

section \<open>Bullet truncation (backend/resume\_generator.py)\<close>

text \<open>
  The loop of \<open>truncate_bullets_to_25_words\<close>: \<open>truncated\<close> is the list built so far,
  each bullet is appended to it, cut or as it is.
\<close>

fun truncate_loop :: "string list \<Rightarrow> string list \<Rightarrow> string list" where
  "truncate_loop truncated [] = truncated"
| "truncate_loop truncated (bullet # bullets) =
     (let words = split_ws bullet in
      if length words > 25
      then truncate_loop (truncated @ [join '' '' (take 25 words) @ ''...'']) bullets
      else truncate_loop (truncated @ [bullet]) bullets)"

definition truncate_bullets_to_25_words :: "string list \<Rightarrow> string list" where
  "truncate_bullets_to_25_words bullets = truncate_loop [] bullets"
section \<open>Generation history (app.py)\<close>

text \<open>
  A history entry is the dictionary built by \<open>add_to_history\<close>; the resume it carries is
  kept abstract. The session state holds the history list (\<open>None\<close> while the key
  \<open>resume_history\<close> is not in the session state), the index of the resume on display
  and the content of the history file.
\<close>

record 'r history_entry =
  entry_id :: string
  timestamp :: string
  job_description :: string
  resume :: 'r
  job_title :: string
  company :: string

record 'r session_state =
  resume_history :: "'r history_entry list option"
  current_resume_index :: int
  history_file :: "'r history_entry list option"

text \<open>
  \<open>save_resume_history\<close>: nothing to do without a history; otherwise every item is copied
  (the \<open>setdefault\<close> calls change no entry that has all its keys) and the copy replaces
  the file.
\<close>

definition save_resume_history :: "'r session_state \<Rightarrow> 'r session_state" where
  "save_resume_history st =
     (case resume_history st of
        None \<Rightarrow> st
      | Some items \<Rightarrow> st\<lparr>history_file := Some items\<rparr>)"

text \<open>
  \<open>new_entry\<close> is the dictionary \<open>entry\<close> that \<open>add_to_history\<close> builds,
  \<open>add_to_history\<close> the function; \<open>new_id\<close> and \<open>now\<close> are what \<open>uuid.uuid4()\<close> and
  \<open>datetime.now()\<close> give at the call.
\<close>

definition new_entry ::
  "string \<Rightarrow> string \<Rightarrow> 'r \<Rightarrow> string \<Rightarrow> string \<Rightarrow> string \<Rightarrow> 'r history_entry" where
  "new_entry new_id now resume_data job_desc company_name title =
     \<lparr>entry_id = new_id, timestamp = now, job_description = job_desc,
      resume = resume_data,
      job_title = (if title = [] then ''Untitled'' else title),
      company = (if company_name = [] then [] else company_name)\<rparr>"

text \<open>The history an operation starts from: empty while the session state has none.\<close>

definition old_history :: "'r session_state \<Rightarrow> 'r history_entry list" where
  "old_history st = (case resume_history st of None \<Rightarrow> [] | Some h \<Rightarrow> h)"

definition add_to_history ::
  "string \<Rightarrow> string \<Rightarrow> 'r \<Rightarrow> string \<Rightarrow> string \<Rightarrow> string \<Rightarrow> 'r session_state \<Rightarrow> 'r session_state" where
  "add_to_history new_id now resume_data job_desc company_name title st =
     (let history = old_history st;
          entry = new_entry new_id now resume_data job_desc company_name title;
          history = entry # history;
          history = take 20 history
      in save_resume_history (st\<lparr>resume_history := Some history, current_resume_index := 0\<rparr>))"
section \<open>Errors and JSON data\<close>

text \<open>The exceptions the modelled functions raise; the strings are their messages.\<close>

datatype error =
    ValueError string
  | FileNotFoundError string
  | KeyError string
  | TypeError
  | AttributeError
  | ValidationError
  | JSONDecodeError
  | ServiceError string

text \<open>
  What \<open>json.load\<close> returns: \<open>None\<close>, booleans, numbers, strings, lists and
  dictionaries with string keys, a dictionary being the list of its items in order.
  Numbers are kept as rationals (no field of the profile is a number).
\<close>

datatype json =
    JNull
  | JBool bool
  | JNum rat
  | JStr string
  | JList "json list"
  | JDict "(string \<times> json) list"

text \<open>Python's truth value of a JSON value (\<open>if x\<close>).\<close>

fun truthy :: "json \<Rightarrow> bool" where
  "truthy JNull = False"
| "truthy (JBool b) = b"
| "truthy (JNum n) = (n \<noteq> 0)"
| "truthy (JStr s) = (s \<noteq> [])"
| "truthy (JList xs) = (xs \<noteq> [])"
| "truthy (JDict kvs) = (kvs \<noteq> [])"

text \<open>
  Dictionary operations on the item list: \<open>k in d\<close>, \<open>d[k] = v\<close> (an existing key keeps
  its place, a new one goes to the end) and \<open>del d[k]\<close>.
\<close>

definition dict_has :: "(string \<times> 'v) list \<Rightarrow> string \<Rightarrow> bool" where
  "dict_has d k \<longleftrightarrow> k \<in> set (map fst d)"

fun dict_set :: "(string \<times> 'v) list \<Rightarrow> string \<Rightarrow> 'v \<Rightarrow> (string \<times> 'v) list" where
  "dict_set [] k v = [(k, v)]"
| "dict_set ((k', v') # d) k v = (if k' = k then (k, v) # d else (k', v') # dict_set d k v)"

definition dict_del :: "(string \<times> 'v) list \<Rightarrow> string \<Rightarrow> (string \<times> 'v) list" where
  "dict_del d k = filter (\<lambda>(k', v'). k' \<noteq> k) d"

section \<open>Integers and their decimal text\<close>

definition is_digit :: "char \<Rightarrow> bool" where
  "is_digit c \<longleftrightarrow> c \<in> set ''0123456789''"

definition digit_val :: "char \<Rightarrow> nat" where
  "digit_val c = of_char c - 48"

definition digit_char :: "nat \<Rightarrow> char" where
  "digit_char n = char_of (48 + n)"

text \<open>\<open>str(n)\<close> and \<open>f"{n}"\<close> for an integer: its decimal digits, \<open>-\<close> before a negative one.\<close>

fun str_nat :: "nat \<Rightarrow> string" where
  "str_nat n = (if n < 10 then [digit_char n] else str_nat (n div 10) @ [digit_char (n mod 10)])"

declare str_nat.simps [simp del]

definition str_int :: "int \<Rightarrow> string" where
  "str_int i = (if i < 0 then ''-'' @ str_nat (nat (- i)) else str_nat (nat i))"

text \<open>
  \<open>int(s)\<close> for a string: surrounding whitespace is dropped, then an optional sign and
  decimal digits, single underscores allowed between digits; anything else raises
  \<open>ValueError\<close> (\<open>None\<close> here). CPython's limit on the number of digits is left out.
\<close>

fun int_body_ok :: "string \<Rightarrow> bool" where
  "int_body_ok [] = False"
| "int_body_ok [c] = is_digit c"
| "int_body_ok (c # d # cs) =
     (is_digit c \<and> (if d = CHR ''_'' then int_body_ok cs else int_body_ok (d # cs)))"

definition digits_value :: "string \<Rightarrow> nat" where
  "digits_value s = foldl (\<lambda>a c. 10 * a + digit_val c) 0 (filter (\<lambda>c. c \<noteq> CHR ''_'') s)"

definition py_int :: "string \<Rightarrow> int option" where
  "py_int s =
     (case strip s of
        [] \<Rightarrow> None
      | c # r \<Rightarrow>
          if c = CHR ''-'' then (if int_body_ok r then Some (- int (digits_value r)) else None)
          else if c = CHR ''+'' then (if int_body_ok r then Some (int (digits_value r)) else None)
          else if int_body_ok (c # r) then Some (int (digits_value (c # r))) else None)"

section \<open>The profile model (profile\_manager.py)\<close>

text \<open>
  The pydantic classes \<open>Education\<close>, \<open>Experience\<close>, \<open>Project\<close> and \<open>UserProfile\<close>;
  the field names carry the class as a prefix. A \<open>Dict\<close> field is the list of its items.
\<close>

record education =
  edu_degree :: string
  edu_institution :: string
  edu_location :: string
  edu_start_date :: string
  edu_end_date :: string
  edu_gpa :: "string option"
  edu_relevant_coursework :: "string list"
  edu_achievements :: "string list"

record experience =
  exp_title :: string
  exp_company :: string
  exp_location :: string
  exp_start_date :: string
  exp_end_date :: string
  exp_description :: "string list"
  exp_skills_used :: "string list"

record project =
  proj_name :: string
  proj_description :: string
  proj_technologies :: "string list"
  proj_achievements :: "string list"
  proj_url :: "string option"

record user_profile =
  personal_info :: "(string \<times> string) list"
  summary :: string
  my_story :: string
  education :: "education list"
  experience :: "experience list"
  projects :: "project list"
  skills :: "(string \<times> string list) list"
  certifications :: "string list"
  awards :: "string list"

subsection \<open>\<open>model_dump\<close>\<close>

definition dump_str_list :: "string list \<Rightarrow> json" where
  "dump_str_list xs = JList (map JStr xs)"

definition dump_opt_str :: "string option \<Rightarrow> json" where
  "dump_opt_str x = (case x of None \<Rightarrow> JNull | Some s \<Rightarrow> JStr s)"

definition dump_education :: "education \<Rightarrow> json" where
  "dump_education e = JDict
     [(''degree'', JStr (edu_degree e)),
      (''institution'', JStr (edu_institution e)),
      (''location'', JStr (edu_location e)),
      (''start_date'', JStr (edu_start_date e)),
      (''end_date'', JStr (edu_end_date e)),
      (''gpa'', dump_opt_str (edu_gpa e)),
      (''relevant_coursework'', dump_str_list (edu_relevant_coursework e)),
      (''achievements'', dump_str_list (edu_achievements e))]"

definition dump_experience :: "experience \<Rightarrow> json" where
  "dump_experience e = JDict
     [(''title'', JStr (exp_title e)),
      (''company'', JStr (exp_company e)),
      (''location'', JStr (exp_location e)),
      (''start_date'', JStr (exp_start_date e)),
      (''end_date'', JStr (exp_end_date e)),
      (''description'', dump_str_list (exp_description e)),
      (''skills_used'', dump_str_list (exp_skills_used e))]"

definition dump_project :: "project \<Rightarrow> json" where
  "dump_project p = JDict
     [(''name'', JStr (proj_name p)),
      (''description'', JStr (proj_description p)),
      (''technologies'', dump_str_list (proj_technologies p)),
      (''achievements'', dump_str_list (proj_achievements p)),
      (''url'', dump_opt_str (proj_url p))]"

definition model_dump :: "user_profile \<Rightarrow> json" where
  "model_dump p = JDict
     [(''personal_info'', JDict (map (\<lambda>(k, v). (k, JStr v)) (personal_info p))),
      (''summary'', JStr (summary p)),
      (''my_story'', JStr (my_story p)),
      (''education'', JList (map dump_education (education p))),
      (''experience'', JList (map dump_experience (experience p))),
      (''projects'', JList (map dump_project (projects p))),
      (''skills'', JDict (map (\<lambda>(k, v). (k, dump_str_list v)) (skills p))),
      (''certifications'', dump_str_list (certifications p)),
      (''awards'', dump_str_list (awards p))]"

subsection \<open>Validation: \<open>UserProfile(**data)\<close>\<close>

text \<open>
  Pydantic takes a string field from a string only, a list field from a list, a model
  from a dictionary; a key that is no field is ignored, a missing field takes its default
  or, having none, fails the validation. \<open>None\<close> is a failed validation.
\<close>

fun as_str :: "json \<Rightarrow> string option" where
  "as_str (JStr s) = Some s"
| "as_str _ = None"

fun as_opt_str :: "json \<Rightarrow> string option option" where
  "as_opt_str JNull = Some None"
| "as_opt_str (JStr s) = Some (Some s)"
| "as_opt_str _ = None"

fun all_some :: "'a option list \<Rightarrow> 'a list option" where
  "all_some [] = Some []"
| "all_some (None # xs) = None"
| "all_some (Some x # xs) = (case all_some xs of None \<Rightarrow> None | Some ys \<Rightarrow> Some (x # ys))"

fun as_list :: "(json \<Rightarrow> 'a option) \<Rightarrow> json \<Rightarrow> 'a list option" where
  "as_list f (JList xs) = all_some (map f xs)"
| "as_list f _ = None"

fun as_dict :: "(json \<Rightarrow> 'a option) \<Rightarrow> json \<Rightarrow> (string \<times> 'a) list option" where
  "as_dict f (JDict kvs) =
     all_some (map (\<lambda>(k, v). case f v of None \<Rightarrow> None | Some x \<Rightarrow> Some (k, x)) kvs)"
| "as_dict f _ = None"

definition required :: "(string \<times> json) list \<Rightarrow> string \<Rightarrow> (json \<Rightarrow> 'a option) \<Rightarrow> 'a option" where
  "required d k f = (case map_of d k of None \<Rightarrow> None | Some v \<Rightarrow> f v)"

definition with_default ::
  "(string \<times> json) list \<Rightarrow> string \<Rightarrow> (json \<Rightarrow> 'a option) \<Rightarrow> 'a \<Rightarrow> 'a option" where
  "with_default d k f dflt = (case map_of d k of None \<Rightarrow> Some dflt | Some v \<Rightarrow> f v)"

fun validate_education :: "json \<Rightarrow> education option" where
  "validate_education (JDict d) =
     do {
       degree \<leftarrow> required d ''degree'' as_str;
       institution \<leftarrow> required d ''institution'' as_str;
       location \<leftarrow> with_default d ''location'' as_str [];
       start_date \<leftarrow> required d ''start_date'' as_str;
       end_date \<leftarrow> required d ''end_date'' as_str;
       gpa \<leftarrow> with_default d ''gpa'' as_opt_str None;
       coursework \<leftarrow> with_default d ''relevant_coursework'' (as_list as_str) [];
       achievements \<leftarrow> with_default d ''achievements'' (as_list as_str) [];
       Some \<lparr>edu_degree = degree, edu_institution = institution, edu_location = location,
             edu_start_date = start_date, edu_end_date = end_date, edu_gpa = gpa,
             edu_relevant_coursework = coursework, edu_achievements = achievements\<rparr>
     }"
| "validate_education _ = None"

fun validate_experience :: "json \<Rightarrow> experience option" where
  "validate_experience (JDict d) =
     do {
       title \<leftarrow> required d ''title'' as_str;
       company \<leftarrow> required d ''company'' as_str;
       location \<leftarrow> with_default d ''location'' as_str [];
       start_date \<leftarrow> required d ''start_date'' as_str;
       end_date \<leftarrow> required d ''end_date'' as_str;
       description \<leftarrow> required d ''description'' (as_list as_str);
       skills_used \<leftarrow> with_default d ''skills_used'' (as_list as_str) [];
       Some \<lparr>exp_title = title, exp_company = company, exp_location = location,
             exp_start_date = start_date, exp_end_date = end_date,
             exp_description = description, exp_skills_used = skills_used\<rparr>
     }"
| "validate_experience _ = None"

fun validate_project :: "json \<Rightarrow> project option" where
  "validate_project (JDict d) =
     do {
       name \<leftarrow> required d ''name'' as_str;
       description \<leftarrow> required d ''description'' as_str;
       technologies \<leftarrow> required d ''technologies'' (as_list as_str);
       achievements \<leftarrow> required d ''achievements'' (as_list as_str);
       url \<leftarrow> with_default d ''url'' as_opt_str None;
       Some \<lparr>proj_name = name, proj_description = description,
             proj_technologies = technologies, proj_achievements = achievements,
             proj_url = url\<rparr>
     }"
| "validate_project _ = None"

definition default_personal_info :: "(string \<times> string) list" where
  "default_personal_info =
     [(''name'', []), (''email'', []), (''phone'', []), (''linkedin'', []),
      (''github'', []), (''portfolio'', []), (''location'', [])]"

definition default_skills :: "(string \<times> string list) list" where
  "default_skills =
     [(''technical'', []), (''languages'', []), (''tools'', []), (''soft_skills'', [])]"

definition validate_fields :: "(string \<times> json) list \<Rightarrow> user_profile option" where
  "validate_fields d =
     do {
       pinfo \<leftarrow> with_default d ''personal_info'' (as_dict as_str) default_personal_info;
       summ \<leftarrow> with_default d ''summary'' as_str [];
       story \<leftarrow> with_default d ''my_story'' as_str [];
       edus \<leftarrow> with_default d ''education'' (as_list validate_education) [];
       exps \<leftarrow> with_default d ''experience'' (as_list validate_experience) [];
       projs \<leftarrow> with_default d ''projects'' (as_list validate_project) [];
       skls \<leftarrow> with_default d ''skills'' (as_dict (as_list as_str)) default_skills;
       certs \<leftarrow> with_default d ''certifications'' (as_list as_str) [];
       awds \<leftarrow> with_default d ''awards'' (as_list as_str) [];
       Some \<lparr>personal_info = pinfo, summary = summ, my_story = story, education = edus,
             experience = exps, projects = projs, skills = skls,
             certifications = certs, awards = awds\<rparr>
     }"

text \<open>\<open>UserProfile(**data)\<close>: \<open>**\<close> needs a dictionary.\<close>

fun UserProfile :: "json \<Rightarrow> error + user_profile" where
  "UserProfile (JDict d) =
     (case validate_fields d of None \<Rightarrow> Inl ValidationError | Some p \<Rightarrow> Inr p)"
| "UserProfile _ = Inl TypeError"

section \<open>The profile store (profile\_manager.py)\<close>

text \<open>
  A directory is a finite map from file names to file contents; a file holds JSON text,
  given by the value \<open>json.load\<close> reads from it, or text that is no JSON. A path
  \<open>dir / f"{name}.json"\<close> is the file name \<open>name @ ''.json''\<close>: names are taken to
  hold no path separator.
\<close>

datatype file_content = Json_text json | Other_text

type_synonym directory = "(string, file_content) fmap"

definition json_load :: "file_content \<Rightarrow> error + json" where
  "json_load f = (case f of Json_text j \<Rightarrow> Inr j | Other_text \<Rightarrow> Inl JSONDecodeError)"

text \<open>\<open>k in s\<close> for strings: \<open>k\<close> occurs in \<open>s\<close>.\<close>

fun str_contains :: "string \<Rightarrow> string \<Rightarrow> bool" where
  "str_contains [] k = (k = [])"
| "str_contains (c # cs) k = (take (length k) (c # cs) = k \<or> str_contains cs k)"

text \<open>
  The operators the migration applies to what it read, whatever its type: \<open>k in x\<close>,
  \<open>x[k]\<close> for a string \<open>k\<close>, and the items a \<open>for\<close> loop over \<open>x\<close> visits.
\<close>

fun py_in :: "string \<Rightarrow> json \<Rightarrow> error + bool" where
  "py_in k (JDict d) = Inr (dict_has d k)"
| "py_in k (JList xs) = Inr (JStr k \<in> set xs)"
| "py_in k (JStr s) = Inr (str_contains s k)"
| "py_in k _ = Inl TypeError"

fun py_getitem :: "json \<Rightarrow> string \<Rightarrow> error + json" where
  "py_getitem (JDict d) k = (case map_of d k of None \<Rightarrow> Inl (KeyError k) | Some v \<Rightarrow> Inr v)"
| "py_getitem _ k = Inl TypeError"

fun py_iter :: "json \<Rightarrow> error + json list" where
  "py_iter (JList xs) = Inr xs"
| "py_iter (JDict d) = Inr (map (\<lambda>(k, v). JStr k) d)"
| "py_iter (JStr s) = Inr (map (\<lambda>c. JStr [c]) s)"
| "py_iter _ = Inl TypeError"

text \<open>
  The body of the migration loop for a dictionary \<open>edu\<close> that has \<open>graduation_date\<close> and
  no \<open>start_date\<close>; \<open>grad_date\<close> is \<open>edu['graduation_date']\<close>.
\<close>

definition migrate_dict :: "(string \<times> json) list \<Rightarrow> json \<Rightarrow> error + (string \<times> json) list" where
  "migrate_dict edu grad_date =
     (if \<not> truthy grad_date then Inr edu
      else case grad_date of
        JStr g \<Rightarrow>
          (case split_ws g of
             [month, year] \<Rightarrow>
               (case py_int year of
                  Some year_int \<Rightarrow>
                    (let start_year = year_int - 4;
                         edu = dict_set edu ''start_date'' (JStr (month @ '' '' @ str_int start_year));
                         edu = dict_set edu ''end_date'' grad_date
                     in Inr (dict_del edu ''graduation_date''))
                | None \<Rightarrow>
                    (let edu = dict_set edu ''start_date'' (JStr ''Sep 2020'');
                         edu = dict_set edu ''end_date'' grad_date
                     in Inr (dict_del edu ''graduation_date'')))
           | _ \<Rightarrow> Inr edu)
      | _ \<Rightarrow> Inl AttributeError)"

text \<open>One round of the loop \<open>for edu in data['education']\<close>.\<close>

definition migrate_edu :: "json \<Rightarrow> error + json" where
  "migrate_edu edu =
     (case py_in ''graduation_date'' edu of
        Inl e \<Rightarrow> Inl e
      | Inr False \<Rightarrow> Inr edu
      | Inr True \<Rightarrow>
          (case py_in ''start_date'' edu of
             Inl e \<Rightarrow> Inl e
           | Inr True \<Rightarrow> Inr edu
           | Inr False \<Rightarrow>
               (case py_getitem edu ''graduation_date'' of
                  Inl e \<Rightarrow> Inl e
                | Inr grad_date \<Rightarrow>
                    (case edu of
                       JDict d \<Rightarrow> (case migrate_dict d grad_date of
                                     Inl e \<Rightarrow> Inl e | Inr d' \<Rightarrow> Inr (JDict d'))
                     | _ \<Rightarrow> Inl TypeError))))"

fun migrate_all :: "json list \<Rightarrow> error + json list" where
  "migrate_all [] = Inr []"
| "migrate_all (edu # edus) =
     (case migrate_edu edu of
        Inl e \<Rightarrow> Inl e
      | Inr edu' \<Rightarrow> (case migrate_all edus of Inl e \<Rightarrow> Inl e | Inr edus' \<Rightarrow> Inr (edu' # edus')))"

text \<open>
  The migration of \<open>load_profile\<close>: the entries of a list \<open>data['education']\<close> are
  changed in place; a loop over anything else can change nothing, only fail.
\<close>

definition migrate :: "json \<Rightarrow> error + json" where
  "migrate data =
     (case py_in ''education'' data of
        Inl e \<Rightarrow> Inl e
      | Inr False \<Rightarrow> Inr data
      | Inr True \<Rightarrow>
          (case py_getitem data ''education'' of
             Inl e \<Rightarrow> Inl e
           | Inr edus \<Rightarrow>
               (case py_iter edus of
                  Inl e \<Rightarrow> Inl e
                | Inr items \<Rightarrow>
                    (case migrate_all items of
                       Inl e \<Rightarrow> Inl e
                     | Inr items' \<Rightarrow>
                         (case (data, edus) of
                            (JDict d, JList _) \<Rightarrow> Inr (JDict (dict_set d ''education'' (JList items')))
                          | _ \<Rightarrow> Inr data)))))"

text \<open>What \<open>load_profile\<close> does with the file it has found.\<close>

definition load_file :: "file_content \<Rightarrow> error + user_profile" where
  "load_file f =
     (case json_load f of
        Inl e \<Rightarrow> Inl e
      | Inr data \<Rightarrow> (case migrate data of Inl e \<Rightarrow> Inl e | Inr data' \<Rightarrow> UserProfile data'))"

definition not_found :: "string \<Rightarrow> error" where
  "not_found profile_name =
     FileNotFoundError (''Profile '' @ [CHR 0x27] @ profile_name @ [CHR 0x27] @ '' not found'')"

text \<open>\<open>load_profile\<close> of profile\_manager.py.\<close>

definition load_profile :: "directory \<Rightarrow> string \<Rightarrow> error + user_profile" where
  "load_profile profiles_dir profile_name =
     (let profile_path = profile_name @ ''.json'' in
      case fmlookup profiles_dir profile_path of
        None \<Rightarrow> Inl (not_found profile_name)
      | Some f \<Rightarrow> load_file f)"

text \<open>
  \<open>load_profile\<close> of backend/profile\_manager.py: a name missing from the profiles
  directory is looked up in the backup directories found at start-up, in their order.
\<close>

fun find_backup :: "directory list \<Rightarrow> string \<Rightarrow> file_content option" where
  "find_backup [] backup_path = None"
| "find_backup (backup_dir # dirs) backup_path =
     (case fmlookup backup_dir backup_path of
        Some f \<Rightarrow> Some f
      | None \<Rightarrow> find_backup dirs backup_path)"

definition backend_load_profile ::
  "directory \<Rightarrow> directory list \<Rightarrow> string \<Rightarrow> error + user_profile" where
  "backend_load_profile profiles_dir backup_dirs profile_name =
     (let profile_path = profile_name @ ''.json'' in
      case fmlookup profiles_dir profile_path of
        Some f \<Rightarrow> load_file f
      | None \<Rightarrow>
          (case find_backup backup_dirs profile_path of
             Some f \<Rightarrow> load_file f
           | None \<Rightarrow> Inl (not_found profile_name)))"

text \<open>
  The loop of \<open>create_profile\<close> that looks for the next free version, from \<open>version\<close>
  on. It ends because the directory is finite and the versioned names are all different.
\<close>

function find_version :: "directory \<Rightarrow> string \<Rightarrow> nat \<Rightarrow> string \<times> string" where
  "find_version profiles_dir clean_name version =
     (let versioned_name = clean_name @ ''_v'' @ str_nat version;
          versioned_path = versioned_name @ ''.json''
      in if versioned_path |\<notin>| fmdom profiles_dir then (versioned_path, versioned_name)
         else find_version profiles_dir clean_name (version + 1))"
  by pat_completeness auto
termination
proof (relation "measure (\<lambda>(d, c, v). card {k. v \<le> k \<and> c @ ''_v'' @ str_nat k @ ''.json'' |\<in>| fmdom d})")
  show "wf (measure (\<lambda>(d, c, v). card {k. v \<le> k \<and> c @ ''_v'' @ str_nat k @ ''.json'' |\<in>| fmdom d}))"
    by simp
next
  fix profiles_dir :: directory and clean_name :: string and version :: nat
    and versioned_name versioned_path :: string
  assume n: "versioned_name = clean_name @ ''_v'' @ str_nat version"
    and p: "versioned_path = versioned_name @ ''.json''"
    and taken: "\<not> versioned_path |\<notin>| fmdom profiles_dir"
  have dv: "digit_val (digit_char d) = d" if "d < 10" for d
    using that by (simp add: digit_val_def digit_char_def)
  have nu: "digit_char d \<noteq> CHR ''_''" if "d < 10" for d
  proof
    assume "digit_char d = CHR ''_''"
    then have "digit_val (digit_char d) = digit_val CHR ''_''" by simp
    then show False using that dv [OF that] by (simp add: digit_val_def)
  qed
  have val: "digits_value (str_nat m) = m" for m
  proof (induction m rule: str_nat.induct)
    case (1 m)
    show ?case
    proof (cases "m < 10")
      case True
      then show ?thesis by (subst str_nat.simps) (simp add: digits_value_def dv nu)
    next
      case False
      have l: "m mod 10 < 10" by simp
      have "digits_value (str_nat (m div 10) @ [digit_char (m mod 10)])
            = 10 * digits_value (str_nat (m div 10)) + m mod 10"
        by (simp add: digits_value_def dv [OF l] nu [OF l])
      then show ?thesis using False "1.IH" by (subst str_nat.simps) simp
    qed
  qed
  have inj: "inj (\<lambda>k. clean_name @ ''_v'' @ str_nat k @ ''.json'')"
  proof (rule injI)
    fix x y assume "clean_name @ ''_v'' @ str_nat x @ ''.json'' = clean_name @ ''_v'' @ str_nat y @ ''.json''"
    then have "str_nat x = str_nat y" by simp
    then have "digits_value (str_nat x) = digits_value (str_nat y)" by simp
    then show "x = y" by (simp only: val)
  qed
  let ?S = "\<lambda>v. {k. v \<le> k \<and> clean_name @ ''_v'' @ str_nat k @ ''.json'' |\<in>| fmdom profiles_dir}"
  have "?S version \<subseteq> (\<lambda>k. clean_name @ ''_v'' @ str_nat k @ ''.json'') -` fset (fmdom profiles_dir)"
    by auto
  moreover have "finite ((\<lambda>k. clean_name @ ''_v'' @ str_nat k @ ''.json'') -` fset (fmdom profiles_dir))"
    by (rule finite_vimageI [OF _ inj]) simp
  ultimately have fin: "finite (?S version)" by (rule finite_subset)
  have "version \<in> ?S version" using taken n p by simp
  moreover have "version \<notin> ?S (version + 1)" by simp
  moreover have "?S (version + 1) \<subseteq> ?S version" by auto
  ultimately have "?S (version + 1) \<subset> ?S version" by blast
  then have "card (?S (version + 1)) < card (?S version)" using fin by (rule psubset_card_mono [rotated])
  then show "((profiles_dir, clean_name, version + 1), (profiles_dir, clean_name, version))
      \<in> measure (\<lambda>(d, c, v). card {k. v \<le> k \<and> c @ ''_v'' @ str_nat k @ ''.json'' |\<in>| fmdom d})"
    by simp
qed

declare find_version.simps [simp del]

text \<open>
  \<open>create_profile\<close>: the new directory, the path written and the name returned.
\<close>

definition create_profile ::
  "directory \<Rightarrow> string \<Rightarrow> user_profile \<Rightarrow> bool \<Rightarrow> directory \<times> string \<times> string" where
  "create_profile profiles_dir profile_name profile replace =
     (let clean_name = strip profile_name;
          clean_name = join '' '' (split_ws clean_name);
          clean_name = filter (\<lambda>c. c \<noteq> CHR ''.'') clean_name;
          profile_path = clean_name @ ''.json'';
          (profile_path, clean_name) =
             (if profile_path |\<in>| fmdom profiles_dir \<and> \<not> replace
              then find_version profiles_dir clean_name 2
              else (profile_path, clean_name))
      in (fmupd profile_path (Json_text (model_dump profile)) profiles_dir,
          profile_path, clean_name))"

text \<open>The error a missing profile file is reported with, told from the others.\<close>

fun is_not_found :: "error \<Rightarrow> bool" where
  "is_not_found (FileNotFoundError m) = True"
| "is_not_found _ = False"

section \<open>Sample data\<close>

definition sample_education :: education where
  "sample_education =
     \<lparr>edu_degree = ''BSc Computer Science'', edu_institution = ''State University'',
      edu_location = ''Lagos'', edu_start_date = ''Sep 2016'', edu_end_date = ''May 2020'',
      edu_gpa = Some ''3.8'', edu_relevant_coursework = [''Algorithms''],
      edu_achievements = [''First class'']\<rparr>"

definition sample_experience :: experience where
  "sample_experience =
     \<lparr>exp_title = ''Engineer'', exp_company = ''Acme'', exp_location = [],
      exp_start_date = ''Jun 2020'', exp_end_date = ''Present'',
      exp_description = [''Built the billing service'', ''Led two interns''],
      exp_skills_used = []\<rparr>"

definition sample_project :: project where
  "sample_project =
     \<lparr>proj_name = ''Ledger'', proj_description = ''A bookkeeping tool'',
      proj_technologies = [''Python''], proj_achievements = [], proj_url = None\<rparr>"

definition sample_profile :: user_profile where
  "sample_profile =
     \<lparr>personal_info = [(''name'', ''Ada Obi''), (''email'', ''ada@example.org'')],
      summary = ''Backend engineer'', my_story = [],
      education = [sample_education], experience = [sample_experience],
      projects = [sample_project],
      skills = [(''technical'', [''Python'', ''SQL'']), (''tools'', [])],
      certifications = [''AWS SA''], awards = []\<rparr>"

text \<open>
  The name \<open>create_profile\<close> saves under when there is no collision, written with the
  words of the requested name: the words joined by single spaces, the dots taken out.
\<close>

definition cleaned_name :: "string \<Rightarrow> string" where
  "cleaned_name n = filter (\<lambda>c. c \<noteq> CHR ''.'') (join '' '' (split_ws n))"

text \<open>\<open>delete_profile\<close>: the new directory and whether a file was removed.\<close>

definition delete_profile :: "directory \<Rightarrow> string \<Rightarrow> directory \<times> bool" where
  "delete_profile profiles_dir profile_name =
     (let profile_path = profile_name @ ''.json'' in
      if profile_path |\<in>| fmdom profiles_dir
      then (fmdrop profile_path profiles_dir, True)
      else (profiles_dir, False))"

text \<open>
  The directories the profile manager itself produces: from an empty directory, by
  \<open>create_profile\<close> and \<open>delete_profile\<close>.
\<close>

inductive managed :: "directory \<Rightarrow> bool" where
  empty: "managed fmempty"
| created: "managed d \<Longrightarrow> managed (fst (create_profile d n p replace))"
| deleted: "managed d \<Longrightarrow> managed (fst (delete_profile d n))"

section \<open>Extracting JSON from a response (backend/resume\_generator.py)\<close>

text \<open>
  \<open>re.search(r'\{.*\}', text, re.DOTALL)\<close>, group 0: the match starts at the first
  \<open>{\<close> and, the star being greedy, ends at the last \<open>}\<close> after it; without a \<open>}\<close>
  after the first \<open>{\<close> nothing matches.
\<close>

definition search_braces :: "string \<Rightarrow> string option" where
  "search_braces text =
     (case dropWhile (\<lambda>c. c \<noteq> CHR ''{'') text of
        [] \<Rightarrow> None
      | b # rest \<Rightarrow>
          if CHR ''}'' \<in> set rest
          then Some (b # rev (dropWhile (\<lambda>c. c \<noteq> CHR ''}'') (rev rest)))
          else None)"

text \<open>
  The regular expression \<open>```(?:json)?\s*(\{.*?\})\s*```\<close> with \<open>re.DOTALL\<close>.
  \<open>lazy_body\<close> is the group after its opening brace: \<open>acc\<close> is what the lazy star has
  taken, and the group ends at the first \<open>}\<close> that whitespace and the closing fence
  follow. \<open>match_fence_at\<close> is a match that starts at the head of the string,
  \<open>search_fence\<close> the leftmost match; both give group 1.
\<close>

fun lazy_body :: "string \<Rightarrow> string \<Rightarrow> string option" where
  "lazy_body acc [] = None"
| "lazy_body acc (c # cs) =
     (if c = CHR ''}'' \<and> take 3 (dropWhile isspace cs) = ''```''
      then Some (acc @ [c])
      else lazy_body (acc @ [c]) cs)"

definition match_fence_at :: "string \<Rightarrow> string option" where
  "match_fence_at s =
     (if take 3 s = ''```''
      then (let r = drop 3 s;
                r = (if take 4 r = ''json'' then drop 4 r else r)
            in case dropWhile isspace r of
                 [] \<Rightarrow> None
               | c # cs \<Rightarrow> if c = CHR ''{'' then lazy_body [c] cs else None)
      else None)"

fun search_fence :: "string \<Rightarrow> string option" where
  "search_fence [] = None"
| "search_fence (c # cs) =
     (case match_fence_at (c # cs) of
        Some g \<Rightarrow> Some g
      | None \<Rightarrow> search_fence cs)"

text \<open>
  \<open>extract_json_from_text\<close>. \<open>loads\<close> is \<open>json.loads\<close>, \<open>None\<close> where it raises: the
  function is stated for whatever the parser accepts.
\<close>

definition parse_error :: "string \<Rightarrow> error" where
  "parse_error text =
     ValueError (''Could not extract valid JSON from response: '' @ take 200 text @ ''...'')"

definition extract_json_from_text :: "(string \<Rightarrow> json option) \<Rightarrow> string \<Rightarrow> error + json" where
  "extract_json_from_text loads text =
     (case loads text of
        Some v \<Rightarrow> Inr v
      | None \<Rightarrow>
          (case (case search_fence text of None \<Rightarrow> None | Some g \<Rightarrow> loads g) of
             Some v \<Rightarrow> Inr v
           | None \<Rightarrow>
               (case (case search_braces text of None \<Rightarrow> None | Some g \<Rightarrow> loads g) of
                  Some v \<Rightarrow> Inr v
                | None \<Rightarrow> Inl (parse_error text))))"

text \<open>
  The answers of \<open>json.loads\<close> on the strings of the examples: \<open>{}\<close> and \<open>[]\<close> parse,
  the other strings the examples pass to it do not.
\<close>

definition sample_loads :: "string \<Rightarrow> json option" where
  "sample_loads s =
     (if s = ''{}'' then Some (JDict []) else if s = ''[]'' then Some (JList []) else None)"

section \<open>Story content (backend/resume\_generator.py)\<close>

text \<open>
  A request to the generation service, as \<open>client.messages.create\<close> is called; the
  service is a function from the request to the text of the response, or to the error
  it raises. \<open>generate_story_content\<close> returns, with its result, the requests it has sent.
\<close>

record request =
  req_model :: string
  req_max_tokens :: nat
  req_temperature :: rat
  req_system :: string
  req_user_message :: string

definition nl :: string where
  "nl = [CHR 0x0A]"

definition dq :: string where
  "dq = [CHR 0x22]"

text \<open>\<open>x or default\<close> for strings.\<close>

definition or_else :: "string \<Rightarrow> string \<Rightarrow> string" where
  "or_else s dflt = (if s = [] then dflt else s)"

text \<open>\<open>d.get(k)\<close> and \<open>v.strip()\<close> on what the parser returned.\<close>

fun py_get :: "json \<Rightarrow> string \<Rightarrow> error + json" where
  "py_get (JDict d) k = Inr (case map_of d k of None \<Rightarrow> JNull | Some v \<Rightarrow> v)"
| "py_get _ k = Inl AttributeError"

fun py_strip :: "json \<Rightarrow> error + string" where
  "py_strip (JStr s) = Inr (strip s)"
| "py_strip _ = Inl AttributeError"

definition experience_summary :: "experience \<Rightarrow> string" where
  "experience_summary xp =
     (let bullet_preview =
            (if exp_description xp \<noteq> [] then join '' '' (take 2 (exp_description xp))
             else ''No detailed responsibilities provided'')
      in exp_title xp @ '' at '' @ exp_company xp @ '' ('' @ exp_start_date xp @ '' - ''
         @ exp_end_date xp @ ''): '' @ bullet_preview)"

definition story_prompt ::
  "string \<Rightarrow> string \<Rightarrow> string \<Rightarrow> string option \<Rightarrow> string \<Rightarrow> string list \<Rightarrow> string" where
  "story_prompt story_context summary_context experience_context extra_knowledge
       job_desc outputs_requested =
     join nl
      [''You are an expert career storyteller crafting personalised narratives that feel authentic and compelling.'',
       [],
       ''CANDIDATE STORY (primary source material):'',
       story_context,
       [],
       ''ADDITIONAL CONTEXT:'',
       ''- Professional Summary (if provided): '' @ or_else summary_context ''No summary provided'',
       ''- Experience Highlights:'',
       experience_context,
       ''- Extra Knowledge: ''
         @ or_else (case extra_knowledge of None \<Rightarrow> [] | Some k \<Rightarrow> k) ''None provided'',
       [],
       ''TARGET JOB DESCRIPTION:'',
       job_desc,
       [],
       ''OUTPUT REQUIREMENTS:'',
       join nl outputs_requested,
       [],
       ''STRICT RULES:'',
       ''- Root every paragraph in the candidate's story, motivations, and authentic experiences.'',
       ''- Reference relevant elements from the job description (mission, responsibilities, skills) to show alignment.'',
       ''- Use confident, professional tone without exaggeration or buzzwords.'',
       ''- Ensure paragraphs are separated by a blank line for readability.'',
       ''- Return ONLY valid JSON with keys for the requested outputs. Omit keys that were not requested.'',
       [],
       ''Return JSON like:'',
       ''{'' @ dq @ ''why_you_want_to_work_here'' @ dq @ '': '' @ dq @ ''...'' @ dq @ '', ''
         @ dq @ ''cover_letter'' @ dq @ '': '' @ dq @ ''...'' @ dq @ ''}'']"

definition why_request :: string where
  "why_request = ''1. WHY_RESPONSE: A 3-paragraph narrative explaining why the candidate wants to work at the company, directly tying motivations from 'My Story' to the specific job description. Each paragraph should be 3-5 sentences, separated by blank lines.''"

definition cover_letter_request :: string where
  "cover_letter_request = ''2. COVER_LETTER: A full professional cover letter (4-5 paragraphs) tailored to the job description. Follow standard cover letter structure (introduction, value proposition, evidence, cultural fit, closing) and ensure tone is authentic to the story.''"

text \<open>The part of \<open>generate_story_content\<close> after the response has been parsed.\<close>

definition filter_outputs :: "json \<Rightarrow> bool \<Rightarrow> bool \<Rightarrow> error + (string \<times> string) list" where
  "filter_outputs result include_why include_cover_letter =
     (case (if include_why
            then (case py_get result ''why_you_want_to_work_here'' of
                    Inl e \<Rightarrow> Inl e
                  | Inr w \<Rightarrow> if truthy w
                             then (case py_strip w of
                                     Inl e \<Rightarrow> Inl e
                                   | Inr s \<Rightarrow> Inr [(''why_you_want_to_work_here'', s)])
                             else Inr [])
            else Inr []) of
        Inl e \<Rightarrow> Inl e
      | Inr filtered \<Rightarrow>
          if include_cover_letter
          then (case py_get result ''cover_letter'' of
                  Inl e \<Rightarrow> Inl e
                | Inr c \<Rightarrow> if truthy c
                           then (case py_strip c of
                                   Inl e \<Rightarrow> Inl e
                                 | Inr s \<Rightarrow> Inr (dict_set filtered ''cover_letter'' s))
                           else Inr filtered)
          else Inr filtered)"

definition generate_story_content ::
  "(string \<Rightarrow> json option) \<Rightarrow> (request \<Rightarrow> error + string) \<Rightarrow> string \<Rightarrow> user_profile \<Rightarrow> string
     \<Rightarrow> bool \<Rightarrow> bool \<Rightarrow> string option \<Rightarrow> request list \<times> (error + (string \<times> string) list)" where
  "generate_story_content loads create model profile job_desc include_why
       include_cover_letter extra_knowledge =
     (if \<not> include_why \<and> \<not> include_cover_letter then ([], Inr [])
      else if my_story profile = [] \<or> strip (my_story profile) = []
      then ([], Inl (ValueError ''Please add content to 'My Story' in your profile before generating story-based responses.''))
      else if job_desc = [] \<or> strip job_desc = []
      then ([], Inl (ValueError ''A job description is required to tailor story-based responses.''))
      else
        (let story_context = strip (my_story profile);
             summary_context = (if summary profile \<noteq> [] then strip (summary profile) else []);
             experience_summaries = map experience_summary (take 4 (experience profile));
             experience_context =
               (if experience_summaries \<noteq> [] then join nl experience_summaries
                else ''No experience entries provided.'');
             outputs_requested =
               (if include_why then [why_request] else [])
               @ (if include_cover_letter then [cover_letter_request] else []);
             prompt = story_prompt story_context summary_context experience_context
                        extra_knowledge job_desc outputs_requested;
             req = \<lparr>req_model = model, req_max_tokens = 1100, req_temperature = 7 / 10,
                    req_system = ''You are an expert career storyteller who writes authentic, tailored narratives. Always respond with valid JSON only.'',
                    req_user_message = prompt\<rparr>
         in case create req of
              Inl e \<Rightarrow> ([req], Inl e)
            | Inr response \<Rightarrow>
                (case extract_json_from_text loads response of
                   Inl e \<Rightarrow> ([req], Inl e)
                 | Inr result \<Rightarrow> ([req], filter_outputs result include_why include_cover_letter))))"

text \<open>A service for the examples: it answers every request with \<open>{}\<close>.\<close>

definition sample_create :: "request \<Rightarrow> error + string" where
  "sample_create req = Inr ''{}''"

section \<open>The exporters (export\_handler.py)\<close>

text \<open>
  The resume record the exporters read. Every key is optional: \<open>None\<close> is a key that
  is absent; a key that is present holds a value of the type the generator gives it.
  A key that holds Python's \<open>None\<close> is like an absent one only where the exporters read
  it through \<open>get\<close> without a default (as \<open>gpa\<close>); where they give a default, \<open>get\<close>
  returns the \<open>None\<close>, and such records are outside the model. The two dictionaries
  with free keys,
  \<open>personal_info\<close> and \<open>skills\<close>, are lists of items. \<open>rp_technatives\<close> is the key
  \<open>technatives\<close> of a project, which \<open>export_to_pdf\<close> reads and no part of the program
  writes. What the document libraries do with the texts they are given is not modelled:
  of a PDF and of a DOCX the model keeps the texts handed to the library, in order, and
  leaves out the layout calls, which read nothing of the resume.
\<close>

record resume_experience =
  rx_title :: "string option"
  rx_company :: "string option"
  rx_location :: "string option"
  rx_start_date :: "string option"
  rx_end_date :: "string option"
  rx_description :: "string list option"

record resume_project =
  rp_name :: "string option"
  rp_description :: "string option"
  rp_technologies :: "string list option"
  rp_achievements :: "string list option"
  rp_technatives :: "string list option"

record resume_education =
  re_degree :: "string option"
  re_institution :: "string option"
  re_location :: "string option"
  re_graduation_date :: "string option"
  re_end_date :: "string option"
  re_gpa :: "string option"
  re_achievements :: "string list option"

record resume_data =
  rd_personal_info :: "(string \<times> string) list option"
  rd_summary :: "string option"
  rd_experience :: "resume_experience list option"
  rd_projects :: "resume_project list option"
  rd_education :: "resume_education list option"
  rd_skills :: "(string \<times> string list) list option"
  rd_certifications :: "string list option"

text \<open>
  \<open>d.get(k)\<close> as a condition, \<open>d.get(k, '')\<close>, \<open>d.get(k, [])\<close> and \<open>d[k]\<close>, which raises
  \<open>KeyError\<close> on an absent key.
\<close>

definition given :: "'a list option \<Rightarrow> bool" where
  "given x = (case x of None \<Rightarrow> False | Some v \<Rightarrow> v \<noteq> [])"

definition get_or :: "'a list option \<Rightarrow> 'a list \<Rightarrow> 'a list" where
  "get_or x dflt = (case x of None \<Rightarrow> dflt | Some v \<Rightarrow> v)"

definition subscript :: "string \<Rightarrow> 'a option \<Rightarrow> error + 'a" where
  "subscript k x = (case x of None \<Rightarrow> Inl (KeyError k) | Some v \<Rightarrow> Inr v)"

text \<open>
  The exporters' texts are UTF-8: the bullet is three bytes. \<open>upper\<close> is \<open>str.upper\<close> on
  the ASCII letters (others are left as they are), \<open>lstrip_bullet\<close> is
  \<open>lstrip\<close> with the bullet and the space as the characters to drop, \<open>remove_all\<close> is
  \<open>replace(pat, '')\<close>.
\<close>

definition tab :: string where
  "tab = [CHR 0x09]"

definition bullet :: string where
  "bullet = [CHR 0xE2, CHR 0x80, CHR 0xA2]"

definition upper :: "string \<Rightarrow> string" where
  "upper s = map (\<lambda>c. if c \<in> set ''abcdefghijklmnopqrstuvwxyz''
                          then char_of (of_char c - (32::nat)) else c) s"

fun lstrip_bullet :: "string \<Rightarrow> string" where
  "lstrip_bullet (a # b # c # r) =
     (if [a, b, c] = bullet then lstrip_bullet r
      else if a = CHR '' '' then lstrip_bullet (b # c # r)
      else a # b # c # r)"
| "lstrip_bullet (a # r) = (if a = CHR '' '' then lstrip_bullet r else a # r)"
| "lstrip_bullet [] = []"

function remove_all :: "string \<Rightarrow> string \<Rightarrow> string" where
  "remove_all pat [] = []"
| "remove_all pat (c # cs) =
     (if pat \<noteq> [] \<and> take (length pat) (c # cs) = pat
      then remove_all pat (drop (length pat) (c # cs))
      else c # remove_all pat cs)"
  by pat_completeness auto
termination
  by (relation "measure (\<lambda>(pat, s). length s)") (auto simp: Suc_le_eq)

text \<open>A loop that appends what each item yields; the first error ends it.\<close>

fun collect :: "('a \<Rightarrow> error + 'b list) \<Rightarrow> 'a list \<Rightarrow> error + 'b list" where
  "collect f [] = Inr []"
| "collect f (x # xs) =
     (case f x of
        Inl e \<Rightarrow> Inl e
      | Inr ys \<Rightarrow> (case collect f xs of Inl e \<Rightarrow> Inl e | Inr zs \<Rightarrow> Inr (ys @ zs)))"

definition personal_get :: "resume_data \<Rightarrow> string \<Rightarrow> string option" where
  "personal_get rd k = map_of (get_or (rd_personal_info rd) []) k"

definition skill_lines ::
  "resume_data \<Rightarrow> (string \<times> string list) list" where
  "skill_lines rd =
     (let skills = get_or (rd_skills rd) [] in
      (if given (map_of skills ''technical'') then [(''Technical'', the (map_of skills ''technical''))] else [])
      @ (if given (map_of skills ''languages'') then [(''Languages'', the (map_of skills ''languages''))] else [])
      @ (if given (map_of skills ''tools'') then [(''Tools'', the (map_of skills ''tools''))] else []))"

subsection \<open>\<open>export_to_txt\<close>: the text written to the file\<close>

definition txt_experience :: "resume_experience \<Rightarrow> error + string list" where
  "txt_experience xp =
     (case subscript ''title'' (rx_title xp) of
        Inl e \<Rightarrow> Inl e
      | Inr title \<Rightarrow>
          (case subscript ''company'' (rx_company xp) of
             Inl e \<Rightarrow> Inl e
           | Inr employer \<Rightarrow>
               (let date_location = get_or (rx_start_date xp) [] @ '' - '' @ get_or (rx_end_date xp) [];
                    date_location = (if given (rx_location xp)
                                     then date_location @ '' | '' @ the (rx_location xp)
                                     else date_location)
                in Inr ([title @ '' - '' @ employer, date_location]
                        @ map (\<lambda>b. ''  '' @ bullet @ '' '' @ b) (get_or (rx_description xp) [])
                        @ ['''']))))"

definition txt_project :: "resume_project \<Rightarrow> error + string list" where
  "txt_project project =
     (case subscript ''name'' (rp_name project) of
        Inl e \<Rightarrow> Inl e
      | Inr name \<Rightarrow>
          (let tech = (if given (rp_technologies project)
                       then [''Technologies: '' @ join '', '' (the (rp_technologies project))]
                       else [])
           in case subscript ''description'' (rp_description project) of
                Inl e \<Rightarrow> Inl e
              | Inr description \<Rightarrow>
                  Inr ([name] @ tech @ [description]
                       @ (if given (rp_achievements project)
                          then map (\<lambda>a. ''  '' @ bullet @ '' '' @ a) (the (rp_achievements project))
                          else [])
                       @ [''''])))"

definition txt_education :: "resume_education \<Rightarrow> error + string list" where
  "txt_education edu =
     (case subscript ''degree'' (re_degree edu) of
        Inl e \<Rightarrow> Inl e
      | Inr degree \<Rightarrow>
          (case subscript ''institution'' (re_institution edu) of
             Inl e \<Rightarrow> Inl e
           | Inr edu_info \<Rightarrow>
               (let edu_info = (if given (re_location edu)
                                then edu_info @ '' | '' @ the (re_location edu) else edu_info);
                    edu_info = (if given (re_graduation_date edu)
                                then edu_info @ '' | '' @ the (re_graduation_date edu) else edu_info)
                in Inr ([degree, edu_info]
                        @ (if given (re_gpa edu) then [''GPA: '' @ the (re_gpa edu)] else [])
                        @ (if given (re_achievements edu)
                           then map (\<lambda>a. ''  '' @ bullet @ '' '' @ lstrip_bullet a)
                                  (the (re_achievements edu))
                           else [])
                        @ ['''']))))"

definition txt_header :: "resume_data \<Rightarrow> string list" where
  "txt_header rd =
     (let contact_info =
            (if given (personal_get rd ''email'') then [the (personal_get rd ''email'')] else [])
            @ (if given (personal_get rd ''phone'') then [the (personal_get rd ''phone'')] else [])
            @ (if given (personal_get rd ''location'')
               then [the (personal_get rd ''location'')] else [])
      in [upper (get_or (personal_get rd ''name'') ''Your Name''), replicate 80 CHR ''='']
         @ (if contact_info \<noteq> [] then [join '' | '' contact_info] else [])
         @ (if given (personal_get rd ''linkedin'')
            then [''LinkedIn: '' @ the (personal_get rd ''linkedin'')] else [])
         @ (if given (personal_get rd ''github'')
            then [''GitHub: '' @ the (personal_get rd ''github'')] else [])
         @ [''''])"

definition txt_section :: "string \<Rightarrow> ('a \<Rightarrow> error + string list) \<Rightarrow> 'a list option \<Rightarrow> error + string list" where
  "txt_section heading f items =
     (if given items
      then (case collect f (the items) of
              Inl e \<Rightarrow> Inl e
            | Inr ls \<Rightarrow> Inr ([heading, replicate 80 CHR ''-''] @ ls))
      else Inr [])"

definition export_to_txt :: "resume_data \<Rightarrow> error + string" where
  "export_to_txt rd =
     (let lines = txt_header rd;
          lines = lines @ (if given (rd_summary rd)
                           then [''PROFESSIONAL SUMMARY'', replicate 80 CHR ''-'',
                                 the (rd_summary rd), []]
                           else [])
      in case txt_section ''PROFESSIONAL EXPERIENCE'' txt_experience (rd_experience rd) of
           Inl e \<Rightarrow> Inl e
         | Inr xs \<Rightarrow>
             (case txt_section ''PROJECTS'' txt_project (rd_projects rd) of
                Inl e \<Rightarrow> Inl e
              | Inr ps \<Rightarrow>
                  (case txt_section ''EDUCATION'' txt_education (rd_education rd) of
                     Inl e \<Rightarrow> Inl e
                   | Inr es \<Rightarrow>
                       Inr (join nl
                         (lines @ xs @ ps @ es
                          @ (if given (rd_skills rd)
                             then [''SKILLS'', replicate 80 CHR ''-'']
                                  @ map (\<lambda>(label, items). label @ '': '' @ join '', '' items)
                                      (skill_lines rd)
                                  @ ['''']
                             else [])
                          @ (if given (rd_certifications rd)
                             then [''CERTIFICATIONS'', replicate 80 CHR ''-'']
                                  @ map (\<lambda>cert. bullet @ '' '' @ cert) (the (rd_certifications rd))
                             else []))))))"

subsection \<open>\<open>export_to_pdf\<close>: the texts of the cells\<close>

datatype pdf_item = Cell string | Multi_cell string

definition pdf_experience :: "resume_experience \<Rightarrow> error + pdf_item list" where
  "pdf_experience xp =
     (case subscript ''title'' (rx_title xp) of
        Inl e \<Rightarrow> Inl e
      | Inr title \<Rightarrow>
          (case subscript ''company'' (rx_company xp) of
             Inl e \<Rightarrow> Inl e
           | Inr employer \<Rightarrow>
               (let date_location = get_or (rx_start_date xp) [] @ '' - '' @ get_or (rx_end_date xp) [];
                    date_location = (if given (rx_location xp)
                                     then date_location @ '' | '' @ the (rx_location xp)
                                     else date_location)
                in Inr ([Cell (title @ '' - '' @ employer), Cell date_location]
                        @ map (\<lambda>b. Multi_cell (''  '' @ bullet @ '' '' @ b))
                            (get_or (rx_description xp) [])))))"

definition pdf_project :: "resume_project \<Rightarrow> error + pdf_item list" where
  "pdf_project project =
     (case subscript ''name'' (rp_name project) of
        Inl e \<Rightarrow> Inl e
      | Inr name \<Rightarrow>
          (case (if given (rp_technologies project)
                 then (case subscript ''technatives'' (rp_technatives project) of
                         Inl e \<Rightarrow> Inl e
                       | Inr ts \<Rightarrow> Inr [Cell (''Technologies: '' @ join '', '' ts)])
                 else Inr []) of
             Inl e \<Rightarrow> Inl e
           | Inr tech \<Rightarrow>
               (case subscript ''description'' (rp_description project) of
                  Inl e \<Rightarrow> Inl e
                | Inr description \<Rightarrow>
                    Inr ([Cell name] @ tech @ [Multi_cell description]
                         @ (if given (rp_achievements project)
                            then map (\<lambda>a. Multi_cell (''  '' @ bullet @ '' '' @ a))
                                   (the (rp_achievements project))
                            else [])))))"

definition pdf_education :: "resume_education \<Rightarrow> error + pdf_item list" where
  "pdf_education edu =
     (case subscript ''degree'' (re_degree edu) of
        Inl e \<Rightarrow> Inl e
      | Inr degree \<Rightarrow>
          (case subscript ''institution'' (re_institution edu) of
             Inl e \<Rightarrow> Inl e
           | Inr edu_info \<Rightarrow>
               (let edu_info = (if given (re_location edu)
                                then edu_info @ '' | '' @ the (re_location edu) else edu_info);
                    edu_info = (if given (re_graduation_date edu)
                                then edu_info @ '' | '' @ the (re_graduation_date edu) else edu_info)
                in Inr ([Cell degree, Cell edu_info]
                        @ (if given (re_gpa edu) then [Cell (''GPA: '' @ the (re_gpa edu))] else [])
                        @ (if given (re_achievements edu)
                           then map (\<lambda>a. Multi_cell (''  '' @ bullet @ '' '' @ lstrip_bullet a))
                                  (the (re_achievements edu))
                           else [])))))"

definition pdf_header :: "resume_data \<Rightarrow> pdf_item list" where
  "pdf_header rd =
     (let contact_info =
            (if given (personal_get rd ''email'') then [the (personal_get rd ''email'')] else [])
            @ (if given (personal_get rd ''phone'') then [the (personal_get rd ''phone'')] else [])
            @ (if given (personal_get rd ''location'')
               then [the (personal_get rd ''location'')] else []);
          links =
            (if given (personal_get rd ''linkedin'')
             then [''LinkedIn: '' @ the (personal_get rd ''linkedin'')] else [])
            @ (if given (personal_get rd ''github'')
               then [''GitHub: '' @ the (personal_get rd ''github'')] else [])
      in [Cell (get_or (personal_get rd ''name'') ''Your Name''), Cell (join '' | '' contact_info)]
         @ (if links \<noteq> [] then [Cell (join '' | '' links)] else []))"

definition pdf_section ::
  "string \<Rightarrow> ('a \<Rightarrow> error + pdf_item list) \<Rightarrow> 'a list option \<Rightarrow> error + pdf_item list" where
  "pdf_section heading f items =
     (if given items
      then (case collect f (the items) of
              Inl e \<Rightarrow> Inl e
            | Inr cells \<Rightarrow> Inr (Cell heading # cells))
      else Inr [])"

definition export_to_pdf :: "resume_data \<Rightarrow> error + pdf_item list" where
  "export_to_pdf rd =
     (let cells = pdf_header rd;
          cells = cells @ (if given (rd_summary rd)
                           then [Cell ''PROFESSIONAL SUMMARY'', Multi_cell (the (rd_summary rd))]
                           else [])
      in case pdf_section ''PROFESSIONAL EXPERIENCE'' pdf_experience (rd_experience rd) of
           Inl e \<Rightarrow> Inl e
         | Inr xs \<Rightarrow>
             (case pdf_section ''PROJECTS'' pdf_project (rd_projects rd) of
                Inl e \<Rightarrow> Inl e
              | Inr ps \<Rightarrow>
                  (case pdf_section ''EDUCATION'' pdf_education (rd_education rd) of
                     Inl e \<Rightarrow> Inl e
                   | Inr es \<Rightarrow>
                       Inr (cells @ xs @ ps @ es
                          @ (if given (rd_skills rd)
                             then Cell ''SKILLS''
                                  # concat (map (\<lambda>(label, items).
                                      [Cell (label @ '':''), Multi_cell (join '', '' items)])
                                      (skill_lines rd))
                             else [])
                          @ (if given (rd_certifications rd)
                             then Cell ''CERTIFICATIONS''
                                  # map (\<lambda>cert. Cell (bullet @ '' '' @ cert)) (the (rd_certifications rd))
                             else [])))))"

subsection \<open>\<open>export_to_docx\<close>: the paragraphs and their runs\<close>

datatype docx_item = Table_cell string | Paragraph string "string list"

definition bare_url :: "string \<Rightarrow> string" where
  "bare_url u = remove_all ''www.'' (remove_all ''https://'' (remove_all ''http://'' u))"

definition docx_education :: "resume_education \<Rightarrow> error + docx_item list" where
  "docx_education edu =
     Inr ([Paragraph ''No Spacing''
             ([get_or (re_institution edu) []]
              @ (if given (re_location edu) then ['' - '' @ the (re_location edu)] else [])
              @ (if given (re_end_date edu) then [tab @ the (re_end_date edu)] else [])),
           Paragraph ''No Spacing'' [get_or (re_degree edu) []]]
          @ (if given (re_achievements edu)
             then map (\<lambda>a. Paragraph ''List Bullet'' [lstrip_bullet a]) (the (re_achievements edu))
             else []))"

definition docx_experience :: "resume_experience \<Rightarrow> error + docx_item list" where
  "docx_experience xp =
     (case subscript ''company'' (rx_company xp) of
        Inl e \<Rightarrow> Inl e
      | Inr employer \<Rightarrow>
          Inr ([Paragraph ''Normal''
                  ([employer]
                   @ (if given (rx_location xp) then ['' - '' @ the (rx_location xp)] else [])
                   @ [tab,
                      get_or (rx_start_date xp) [] @ '' - '' @ get_or (rx_end_date xp) []]),
                Paragraph ''No Spacing'' [get_or (rx_title xp) []]]
               @ map (\<lambda>b. Paragraph ''List Bullet'' [b]) (get_or (rx_description xp) [])))"

definition docx_project :: "resume_project \<Rightarrow> error + docx_item list" where
  "docx_project project =
     Inr ([Paragraph ''No Spacing'' [get_or (rp_name project) []]]
          @ (if given (rp_technologies project)
             then [Paragraph ''No Spacing''
                     [''Technologies: '', join '', '' (the (rp_technologies project))]]
             else [])
          @ (if given (rp_description project)
             then [Paragraph ''No Spacing'' [the (rp_description project)]] else [])
          @ (if given (rp_achievements project)
             then map (\<lambda>a. Paragraph ''List Bullet'' [a]) (the (rp_achievements project))
             else [])
          @ [Paragraph ''Normal'' []])"

definition docx_header :: "resume_data \<Rightarrow> docx_item list" where
  "docx_header rd =
     (let contact_parts =
            (if given (personal_get rd ''email'') then [the (personal_get rd ''email'')] else [])
            @ (if given (personal_get rd ''phone'') then [the (personal_get rd ''phone'')] else [])
            @ (if given (personal_get rd ''location'')
               then [the (personal_get rd ''location'')] else [])
            @ (if given (personal_get rd ''linkedin'')
               then [bare_url (the (personal_get rd ''linkedin''))] else [])
            @ (if given (personal_get rd ''github'')
               then [bare_url (the (personal_get rd ''github''))] else [])
      in [Table_cell (upper (get_or (personal_get rd ''name'') ''Your Name''))]
         @ (if contact_parts \<noteq> [] then [Paragraph ''Normal'' [join '' | '' contact_parts]] else []))"

definition docx_section ::
  "string \<Rightarrow> ('a \<Rightarrow> error + docx_item list) \<Rightarrow> 'a list option \<Rightarrow> error + docx_item list" where
  "docx_section heading f items =
     (if given items
      then (case collect f (the items) of
              Inl e \<Rightarrow> Inl e
            | Inr ps \<Rightarrow> Inr (Paragraph ''Heading 2'' [heading] # ps))
      else Inr [])"

definition export_to_docx :: "resume_data \<Rightarrow> error + docx_item list" where
  "export_to_docx rd =
     (let doc = docx_header rd;
          doc = doc @ (if given (rd_summary rd)
                       then [Paragraph ''Heading 2'' [''PROFESSIONAL SUMMARY''],
                             Paragraph ''Normal'' [the (rd_summary rd)]]
                       else [])
      in case docx_section ''EDUCATION'' docx_education (rd_education rd) of
           Inl e \<Rightarrow> Inl e
         | Inr es \<Rightarrow>
             (case docx_section ''PROFESSIONAL EXPERIENCE'' docx_experience (rd_experience rd) of
                Inl e \<Rightarrow> Inl e
              | Inr xs \<Rightarrow>
                  (case docx_section ''PROJECTS'' docx_project (rd_projects rd) of
                     Inl e \<Rightarrow> Inl e
                   | Inr ps \<Rightarrow>
                       Inr (doc @ es @ xs @ ps
                          @ (if given (rd_skills rd)
                             then Paragraph ''Heading 2'' [''SKILLS'']
                                  # map (\<lambda>(label, items).
                                      Paragraph ''No Spacing'' [label @ '': '', join '', '' items])
                                      (skill_lines rd)
                             else [])
                          @ (if given (rd_certifications rd)
                             then Paragraph ''Heading 2'' [''CERTIFICATIONS'']
                                  # map (\<lambda>cert. Paragraph ''List Bullet'' [cert])
                                      (the (rd_certifications rd))
                             else [])))))"

text \<open>
  A resume for the examples: a name and one project with its technologies; every other
  key is absent.
\<close>

definition sample_resume :: resume_data where
  "sample_resume =
     \<lparr>rd_personal_info = Some [(''name'', ''Ada Obi'')], rd_summary = None,
      rd_experience = None,
      rd_projects = Some [\<lparr>rp_name = Some ''Ledger'', rp_description = Some ''A bookkeeping tool'',
                            rp_technologies = Some [''Python''], rp_achievements = None,
                            rp_technatives = None\<rparr>],
      rd_education = None, rd_skills = None, rd_certifications = None\<rparr>"

section \<open>Properties of the string primitives\<close>

lemma isspace_space: "isspace CHR '' ''" by (simp add: isspace_def)
lemma not_isspace_dot: "\<not> isspace CHR ''.''" by (simp add: isspace_def)

lemma split_ws_Nil: "split_ws [] = []" by (simp add: split_ws.simps)

lemma split_ws_space: "isspace c \<Longrightarrow> split_ws (c # s) = split_ws s"
  by (subst split_ws.simps, subst (2) split_ws.simps) simp

lemma split_ws_word_app:
  assumes "w \<noteq> []" "\<forall>c\<in>set w. \<not> isspace c" "r = [] \<or> isspace (hd r)"
  shows "split_ws (w @ r) = w # split_ws r"
proof -
  obtain c cs where w: "w = c # cs" using assms(1) by (cases w) auto
  have d: "dropWhile isspace (w @ r) = w @ r" using assms(2) w by simp
  have t: "takeWhile (\<lambda>x. \<not> isspace x) (w @ r) = w"
    using assms(2,3) by (cases r) (auto simp: takeWhile_append2 takeWhile_append1)
  have dd: "dropWhile (\<lambda>x. \<not> isspace x) (w @ r) = r"
    using assms(2,3) by (cases r) (auto simp: dropWhile_append2)
  show ?thesis
    by (subst split_ws.simps) (use d t dd w in \<open>simp add: w\<close>)
qed

lemma split_ws_unfold_Nil:
  assumes "dropWhile isspace s = []"
  shows "split_ws s = []"
  by (subst split_ws.simps) (simp only: assms list.case)

lemma split_ws_unfold_Cons:
  assumes "dropWhile isspace s = c # cs"
  shows "split_ws s = takeWhile (\<lambda>x. \<not> isspace x) (c # cs)
                # split_ws (dropWhile (\<lambda>x. \<not> isspace x) (c # cs))"
  by (subst split_ws.simps) (simp only: assms list.case)

lemma dropWhile_head: "dropWhile P s = c # cs \<Longrightarrow> \<not> P c"
  using hd_dropWhile [of P s] by fastforce

lemma split_ws_words:
  "w \<in> set (split_ws s) \<Longrightarrow> w \<noteq> [] \<and> (\<forall>c\<in>set w. \<not> isspace c)"
proof (induction s rule: split_ws.induct)
  case (1 s)
  show ?case
  proof (cases "dropWhile isspace s")
    case Nil
    with "1.prems" show ?thesis by (simp add: split_ws_unfold_Nil)
  next
    case (Cons c cs)
    have nc: "\<not> isspace c" using Cons by (rule dropWhile_head)
    from "1.prems"
    have "w = takeWhile (\<lambda>x. \<not> isspace x) (c # cs)
          \<or> w \<in> set (split_ws (dropWhile (\<lambda>x. \<not> isspace x) (c # cs)))"
      unfolding split_ws_unfold_Cons [OF Cons] by simp
    then show ?thesis
    proof
      assume e: "w = takeWhile (\<lambda>x. \<not> isspace x) (c # cs)"
      then have "w \<noteq> []" using nc by simp
      moreover have "\<forall>c\<in>set w. \<not> isspace c" unfolding e by (auto dest: set_takeWhileD)
      ultimately show ?thesis by simp
    next
      assume "w \<in> set (split_ws (dropWhile (\<lambda>x. \<not> isspace x) (c # cs)))"
      then show ?thesis by (rule "1.IH" [OF Cons])
    qed
  qed
qed

lemma split_ws_join:
  "\<forall>w\<in>set ws. w \<noteq> [] \<and> (\<forall>c\<in>set w. \<not> isspace c) \<Longrightarrow> split_ws (join '' '' ws) = ws"
proof (induction ws rule: induct_list012)
  case 1 show ?case by (simp add: split_ws_Nil)
next
  case (2 w)
  then show ?case using split_ws_word_app [of w "[]"] by (simp add: split_ws_Nil)
next
  case (3 w v ws)
  have "split_ws (w @ '' '' @ join '' '' (v # ws)) = w # split_ws ('' '' @ join '' '' (v # ws))"
    using "3.prems" by (intro split_ws_word_app) (auto simp: isspace_space)
  also have "split_ws ('' '' @ join '' '' (v # ws)) = split_ws (join '' '' (v # ws))"
    by (simp add: split_ws_space isspace_space)
  also have "\<dots> = v # ws" using 3 by simp
  finally show ?case by simp
qed

lemma join_snoc: "ws \<noteq> [] \<Longrightarrow> join sep ws @ t = join sep (butlast ws @ [last ws @ t])"
proof (induction ws rule: induct_list012)
  case 1 then show ?case by simp
next
  case (2 w) show ?case by simp
next
  case (3 w v ws)
  then have "join sep (v # ws) @ t = join sep (butlast (v # ws) @ [last (v # ws) @ t])" by simp
  moreover obtain x xs where "butlast (v # ws) @ [last (v # ws) @ t] = x # xs"
    by (cases "butlast (v # ws) @ [last (v # ws) @ t]") auto
  ultimately show ?case by simp
qed

lemma truncate_loop_eq:
  "truncate_loop acc bs = acc @ map (\<lambda>b. if length (split_ws b) > 25
       then join '' '' (take 25 (split_ws b)) @ ''...'' else b) bs"
proof (induction bs arbitrary: acc)
  case Nil show ?case by simp
next
  case (Cons b bs)
  show ?case by (simp only: truncate_loop.simps Let_def Cons.IH list.map append_assoc append.simps split: if_split) simp
qed

lemma split_ws_cut:
  assumes "25 < length (split_ws b)"
  shows "length (split_ws (join '' '' (take 25 (split_ws b)) @ ''...'')) = 25"
proof -
  let ?ws = "take 25 (split_ws b)"
  have ne: "?ws \<noteq> []" using assms by auto
  have good: "\<forall>w\<in>set ?ws. w \<noteq> [] \<and> (\<forall>c\<in>set w. \<not> isspace c)"
    by (auto dest!: in_set_takeD split_ws_words)
  have "\<forall>w\<in>set (butlast ?ws @ [last ?ws @ ''...'']). w \<noteq> [] \<and> (\<forall>c\<in>set w. \<not> isspace c)"
  proof
    fix w assume "w \<in> set (butlast ?ws @ [last ?ws @ ''...''])"
    then consider "w \<in> set (butlast ?ws)" | "w = last ?ws @ ''...''" by auto
    then show "w \<noteq> [] \<and> (\<forall>c\<in>set w. \<not> isspace c)"
    proof cases
      case 1 then have "w \<in> set ?ws" by (rule in_set_butlastD)
      then show ?thesis using good by blast
    next
      case 2
      have "last ?ws \<in> set ?ws" using ne by simp
      then show ?thesis using good 2 not_isspace_dot by auto
    qed
  qed
  then have "split_ws (join '' '' (butlast ?ws @ [last ?ws @ ''...''])) = butlast ?ws @ [last ?ws @ ''...'']"
    by (rule split_ws_join)
  then have "split_ws (join '' '' ?ws @ ''...'') = butlast ?ws @ [last ?ws @ ''...'']"
    using join_snoc [OF ne, of "'' ''" "''...''"] by simp
  then show ?thesis using assms by simp
qed

section \<open>Bullet truncation: the 25-word ceiling\<close>

text \<open>
  C2. Every bullet of at most 25 words is returned as it is; a bullet of more than 25 words
  is returned as its first 25 words joined by single spaces, followed by the ellipsis
  \<open>...\<close>, and then counts exactly 25 words; the output has the length and the
  order of the input.
\<close>

theorem truncate_bullets_to_25_words_spec:
  "length (truncate_bullets_to_25_words bullets) = length bullets \<and>
   (\<forall>i<length bullets.
      (length (split_ws (bullets ! i)) \<le> 25 \<longrightarrow>
         truncate_bullets_to_25_words bullets ! i = bullets ! i) \<and>
      (length (split_ws (bullets ! i)) > 25 \<longrightarrow>
         truncate_bullets_to_25_words bullets ! i
           = join '' '' (take 25 (split_ws (bullets ! i))) @ ''...'' \<and>
         length (split_ws (truncate_bullets_to_25_words bullets ! i)) = 25))"
  by (simp add: truncate_bullets_to_25_words_def truncate_loop_eq split_ws_cut)

theorem truncate_bullets_to_25_words_witness:
  "truncate_bullets_to_25_words [''Did  X'', ''a b c d e f g h i j k l m n o p q r s t u v w x y z''] ! 0 = ''Did  X'' \<and>
   truncate_bullets_to_25_words [''Did  X'', ''a b c d e f g h i j k l m n o p q r s t u v w x y z''] ! 1 = ''a b c d e f g h i j k l m n o p q r s t u v w x y...''"
proof -
  have s0: "split_ws ''Did  X'' = [''Did'', ''X'']" by code_simp
  have s1: "split_ws ''a b c d e f g h i j k l m n o p q r s t u v w x y z'' = [''a'', ''b'', ''c'', ''d'', ''e'', ''f'', ''g'', ''h'', ''i'', ''j'', ''k'', ''l'', ''m'', ''n'', ''o'', ''p'', ''q'', ''r'', ''s'', ''t'', ''u'', ''v'', ''w'', ''x'', ''y'', ''z'']" by code_simp
  show ?thesis
    using truncate_bullets_to_25_words_spec [of "[''Did  X'', ''a b c d e f g h i j k l m n o p q r s t u v w x y z'']"]
    by (simp add: s0 s1 nth_Cons')
qed

section \<open>History: capped at 20, newest first\<close>

lemma add_to_history_history:
  "resume_history (add_to_history i t r jd c jt st)
     = Some (take 20 (new_entry i t r jd c jt # old_history st))"
  by (simp add: add_to_history_def save_resume_history_def Let_def old_history_def)

lemma add_to_history_file:
  "history_file (add_to_history i t r jd c jt st)
     = resume_history (add_to_history i t r jd c jt st)"
  by (simp add: add_to_history_def save_resume_history_def Let_def)

lemma add_to_history_index: "current_resume_index (add_to_history i t r jd c jt st) = 0"
  by (simp add: add_to_history_def save_resume_history_def Let_def)

text \<open>
  A run of appends, the last of \<open>es\<close> being the latest: the history is the appended
  entries, latest first, before the earlier ones, cut at 20.
\<close>

lemma add_to_history_run:
  "resume_history (foldl (\<lambda>s (i, t, r, jd, c, jt). add_to_history i t r jd c jt s) st es)
     = (if es = [] then resume_history st
        else Some (take 20 (rev (map (\<lambda>(i, t, r, jd, c, jt). new_entry i t r jd c jt) es)
                            @ old_history st)))"
proof (induction es rule: rev_induct)
  case Nil
  show ?case by simp
next
  case (snoc x xs)
  obtain i t r jd c jt where x: "x = (i, t, r, jd, c, jt)" by (cases x) auto
  let ?s = "foldl (\<lambda>s (i, t, r, jd, c, jt). add_to_history i t r jd c jt s) st xs"
  let ?m = "map (\<lambda>(i, t, r, jd, c, jt). new_entry i t r jd c jt) xs"
  have o: "old_history ?s = (if xs = [] then old_history st else take 20 (rev ?m @ old_history st))"
    using snoc.IH by (simp add: old_history_def)
  have "take 20 (new_entry i t r jd c jt # old_history ?s)
        = take 20 (new_entry i t r jd c jt # rev ?m @ old_history st)"
    by (simp add: o take_Cons' min_def)
  then show ?case by (simp add: x add_to_history_history)
qed

text \<open>
  C4. After an append the history in the session, which is also the stored one, holds the
  new entry at index 0 followed by the earlier entries in their earlier order, and never
  more than 20 entries; appended to a history of 20 entries it holds exactly 20, the last
  (oldest) one being dropped.
\<close>

theorem add_to_history_cap:
  "resume_history (add_to_history i t r jd c jt st)
     = Some (new_entry i t r jd c jt # take 19 (old_history st)) \<and>
   history_file (add_to_history i t r jd c jt st)
     = Some (new_entry i t r jd c jt # take 19 (old_history st)) \<and>
   length (new_entry i t r jd c jt # take 19 (old_history st)) \<le> 20 \<and>
   (length (old_history st) = 20 \<longrightarrow>
      length (new_entry i t r jd c jt # take 19 (old_history st)) = 20 \<and>
      take 19 (old_history st) = butlast (old_history st))"
  by (simp add: add_to_history_history add_to_history_file take_Cons' butlast_conv_take)

theorem add_to_history_cap_witness:
  "length (old_history \<lparr>resume_history = Some
     [new_entry ''id20'' ''2025-01-20 10:00:00'' (20::nat) ''jd'' ''Acme'' ''Dev'',
      new_entry ''id19'' ''2025-01-19 10:00:00'' (19::nat) ''jd'' ''Acme'' ''Dev'',
      new_entry ''id18'' ''2025-01-18 10:00:00'' (18::nat) ''jd'' ''Acme'' ''Dev'',
      new_entry ''id17'' ''2025-01-17 10:00:00'' (17::nat) ''jd'' ''Acme'' ''Dev'',
      new_entry ''id16'' ''2025-01-16 10:00:00'' (16::nat) ''jd'' ''Acme'' ''Dev'',
      new_entry ''id15'' ''2025-01-15 10:00:00'' (15::nat) ''jd'' ''Acme'' ''Dev'',
      new_entry ''id14'' ''2025-01-14 10:00:00'' (14::nat) ''jd'' ''Acme'' ''Dev'',
      new_entry ''id13'' ''2025-01-13 10:00:00'' (13::nat) ''jd'' ''Acme'' ''Dev'',
      new_entry ''id12'' ''2025-01-12 10:00:00'' (12::nat) ''jd'' ''Acme'' ''Dev'',
      new_entry ''id11'' ''2025-01-11 10:00:00'' (11::nat) ''jd'' ''Acme'' ''Dev'',
      new_entry ''id10'' ''2025-01-10 10:00:00'' (10::nat) ''jd'' ''Acme'' ''Dev'',
      new_entry ''id9'' ''2025-01-09 10:00:00'' (9::nat) ''jd'' ''Acme'' ''Dev'',
      new_entry ''id8'' ''2025-01-08 10:00:00'' (8::nat) ''jd'' ''Acme'' ''Dev'',
      new_entry ''id7'' ''2025-01-07 10:00:00'' (7::nat) ''jd'' ''Acme'' ''Dev'',
      new_entry ''id6'' ''2025-01-06 10:00:00'' (6::nat) ''jd'' ''Acme'' ''Dev'',
      new_entry ''id5'' ''2025-01-05 10:00:00'' (5::nat) ''jd'' ''Acme'' ''Dev'',
      new_entry ''id4'' ''2025-01-04 10:00:00'' (4::nat) ''jd'' ''Acme'' ''Dev'',
      new_entry ''id3'' ''2025-01-03 10:00:00'' (3::nat) ''jd'' ''Acme'' ''Dev'',
      new_entry ''id2'' ''2025-01-02 10:00:00'' (2::nat) ''jd'' ''Acme'' ''Dev'',
      new_entry ''id1'' ''2025-01-01 10:00:00'' (1::nat) ''jd'' ''Acme'' ''Dev''],
       current_resume_index = 3, history_file = None\<rparr>) = 20 \<and>
   resume_history (add_to_history ''id21'' ''2025-01-21 10:00:00'' (21::nat) ''jd'' ''Acme'' []
      \<lparr>resume_history = Some
     [new_entry ''id20'' ''2025-01-20 10:00:00'' (20::nat) ''jd'' ''Acme'' ''Dev'',
      new_entry ''id19'' ''2025-01-19 10:00:00'' (19::nat) ''jd'' ''Acme'' ''Dev'',
      new_entry ''id18'' ''2025-01-18 10:00:00'' (18::nat) ''jd'' ''Acme'' ''Dev'',
      new_entry ''id17'' ''2025-01-17 10:00:00'' (17::nat) ''jd'' ''Acme'' ''Dev'',
      new_entry ''id16'' ''2025-01-16 10:00:00'' (16::nat) ''jd'' ''Acme'' ''Dev'',
      new_entry ''id15'' ''2025-01-15 10:00:00'' (15::nat) ''jd'' ''Acme'' ''Dev'',
      new_entry ''id14'' ''2025-01-14 10:00:00'' (14::nat) ''jd'' ''Acme'' ''Dev'',
      new_entry ''id13'' ''2025-01-13 10:00:00'' (13::nat) ''jd'' ''Acme'' ''Dev'',
      new_entry ''id12'' ''2025-01-12 10:00:00'' (12::nat) ''jd'' ''Acme'' ''Dev'',
      new_entry ''id11'' ''2025-01-11 10:00:00'' (11::nat) ''jd'' ''Acme'' ''Dev'',
      new_entry ''id10'' ''2025-01-10 10:00:00'' (10::nat) ''jd'' ''Acme'' ''Dev'',
      new_entry ''id9'' ''2025-01-09 10:00:00'' (9::nat) ''jd'' ''Acme'' ''Dev'',
      new_entry ''id8'' ''2025-01-08 10:00:00'' (8::nat) ''jd'' ''Acme'' ''Dev'',
      new_entry ''id7'' ''2025-01-07 10:00:00'' (7::nat) ''jd'' ''Acme'' ''Dev'',
      new_entry ''id6'' ''2025-01-06 10:00:00'' (6::nat) ''jd'' ''Acme'' ''Dev'',
      new_entry ''id5'' ''2025-01-05 10:00:00'' (5::nat) ''jd'' ''Acme'' ''Dev'',
      new_entry ''id4'' ''2025-01-04 10:00:00'' (4::nat) ''jd'' ''Acme'' ''Dev'',
      new_entry ''id3'' ''2025-01-03 10:00:00'' (3::nat) ''jd'' ''Acme'' ''Dev'',
      new_entry ''id2'' ''2025-01-02 10:00:00'' (2::nat) ''jd'' ''Acme'' ''Dev'',
      new_entry ''id1'' ''2025-01-01 10:00:00'' (1::nat) ''jd'' ''Acme'' ''Dev''],
       current_resume_index = 3, history_file = None\<rparr>)
   = Some (new_entry ''id21'' ''2025-01-21 10:00:00'' 21 ''jd'' ''Acme'' [] #
     [new_entry ''id20'' ''2025-01-20 10:00:00'' (20::nat) ''jd'' ''Acme'' ''Dev'',
      new_entry ''id19'' ''2025-01-19 10:00:00'' (19::nat) ''jd'' ''Acme'' ''Dev'',
      new_entry ''id18'' ''2025-01-18 10:00:00'' (18::nat) ''jd'' ''Acme'' ''Dev'',
      new_entry ''id17'' ''2025-01-17 10:00:00'' (17::nat) ''jd'' ''Acme'' ''Dev'',
      new_entry ''id16'' ''2025-01-16 10:00:00'' (16::nat) ''jd'' ''Acme'' ''Dev'',
      new_entry ''id15'' ''2025-01-15 10:00:00'' (15::nat) ''jd'' ''Acme'' ''Dev'',
      new_entry ''id14'' ''2025-01-14 10:00:00'' (14::nat) ''jd'' ''Acme'' ''Dev'',
      new_entry ''id13'' ''2025-01-13 10:00:00'' (13::nat) ''jd'' ''Acme'' ''Dev'',
      new_entry ''id12'' ''2025-01-12 10:00:00'' (12::nat) ''jd'' ''Acme'' ''Dev'',
      new_entry ''id11'' ''2025-01-11 10:00:00'' (11::nat) ''jd'' ''Acme'' ''Dev'',
      new_entry ''id10'' ''2025-01-10 10:00:00'' (10::nat) ''jd'' ''Acme'' ''Dev'',
      new_entry ''id9'' ''2025-01-09 10:00:00'' (9::nat) ''jd'' ''Acme'' ''Dev'',
      new_entry ''id8'' ''2025-01-08 10:00:00'' (8::nat) ''jd'' ''Acme'' ''Dev'',
      new_entry ''id7'' ''2025-01-07 10:00:00'' (7::nat) ''jd'' ''Acme'' ''Dev'',
      new_entry ''id6'' ''2025-01-06 10:00:00'' (6::nat) ''jd'' ''Acme'' ''Dev'',
      new_entry ''id5'' ''2025-01-05 10:00:00'' (5::nat) ''jd'' ''Acme'' ''Dev'',
      new_entry ''id4'' ''2025-01-04 10:00:00'' (4::nat) ''jd'' ''Acme'' ''Dev'',
      new_entry ''id3'' ''2025-01-03 10:00:00'' (3::nat) ''jd'' ''Acme'' ''Dev'',
      new_entry ''id2'' ''2025-01-02 10:00:00'' (2::nat) ''jd'' ''Acme'' ''Dev''])"
  using add_to_history_cap [of "''id21''" "''2025-01-21 10:00:00''" "21::nat" "''jd''" "''Acme''" "[]"
      "\<lparr>resume_history = Some
     [new_entry ''id20'' ''2025-01-20 10:00:00'' (20::nat) ''jd'' ''Acme'' ''Dev'',
      new_entry ''id19'' ''2025-01-19 10:00:00'' (19::nat) ''jd'' ''Acme'' ''Dev'',
      new_entry ''id18'' ''2025-01-18 10:00:00'' (18::nat) ''jd'' ''Acme'' ''Dev'',
      new_entry ''id17'' ''2025-01-17 10:00:00'' (17::nat) ''jd'' ''Acme'' ''Dev'',
      new_entry ''id16'' ''2025-01-16 10:00:00'' (16::nat) ''jd'' ''Acme'' ''Dev'',
      new_entry ''id15'' ''2025-01-15 10:00:00'' (15::nat) ''jd'' ''Acme'' ''Dev'',
      new_entry ''id14'' ''2025-01-14 10:00:00'' (14::nat) ''jd'' ''Acme'' ''Dev'',
      new_entry ''id13'' ''2025-01-13 10:00:00'' (13::nat) ''jd'' ''Acme'' ''Dev'',
      new_entry ''id12'' ''2025-01-12 10:00:00'' (12::nat) ''jd'' ''Acme'' ''Dev'',
      new_entry ''id11'' ''2025-01-11 10:00:00'' (11::nat) ''jd'' ''Acme'' ''Dev'',
      new_entry ''id10'' ''2025-01-10 10:00:00'' (10::nat) ''jd'' ''Acme'' ''Dev'',
      new_entry ''id9'' ''2025-01-09 10:00:00'' (9::nat) ''jd'' ''Acme'' ''Dev'',
      new_entry ''id8'' ''2025-01-08 10:00:00'' (8::nat) ''jd'' ''Acme'' ''Dev'',
      new_entry ''id7'' ''2025-01-07 10:00:00'' (7::nat) ''jd'' ''Acme'' ''Dev'',
      new_entry ''id6'' ''2025-01-06 10:00:00'' (6::nat) ''jd'' ''Acme'' ''Dev'',
      new_entry ''id5'' ''2025-01-05 10:00:00'' (5::nat) ''jd'' ''Acme'' ''Dev'',
      new_entry ''id4'' ''2025-01-04 10:00:00'' (4::nat) ''jd'' ''Acme'' ''Dev'',
      new_entry ''id3'' ''2025-01-03 10:00:00'' (3::nat) ''jd'' ''Acme'' ''Dev'',
      new_entry ''id2'' ''2025-01-02 10:00:00'' (2::nat) ''jd'' ''Acme'' ''Dev'',
      new_entry ''id1'' ''2025-01-01 10:00:00'' (1::nat) ''jd'' ''Acme'' ''Dev''],
       current_resume_index = 3, history_file = None\<rparr>"]
  by (simp add: old_history_def)

section \<open>Dump and validation are inverse\<close>

lemma as_list_inverse:
  assumes "\<And>x. g (f x) = Some x"
  shows "as_list g (JList (map f xs)) = Some xs"
  using assms by (induction xs) auto

lemma as_dict_inverse:
  assumes "\<And>x. g (f x) = Some x"
  shows "as_dict g (JDict (map (\<lambda>(k, v). (k, f v)) d)) = Some d"
  using assms by (induction d) auto

lemma as_list_str_dump: "as_list as_str (dump_str_list xs) = Some xs"
  unfolding dump_str_list_def by (rule as_list_inverse) simp

lemma as_opt_str_dump: "as_opt_str (dump_opt_str x) = Some x"
  by (cases x) (simp_all add: dump_opt_str_def)

lemma validate_dump_education: "validate_education (dump_education e) = Some e"
  by (simp add: dump_education_def required_def with_default_def
      as_list_str_dump as_opt_str_dump)

lemma validate_dump_experience: "validate_experience (dump_experience e) = Some e"
  by (simp add: dump_experience_def required_def with_default_def as_list_str_dump)

lemma validate_dump_project: "validate_project (dump_project p) = Some p"
  by (simp add: dump_project_def required_def with_default_def
      as_list_str_dump as_opt_str_dump)

lemma validate_fields_dump:
  "validate_fields
     [(''personal_info'', JDict (map (\<lambda>(k, v). (k, JStr v)) (personal_info p))),
      (''summary'', JStr (summary p)),
      (''my_story'', JStr (my_story p)),
      (''education'', JList (map dump_education (education p))),
      (''experience'', JList (map dump_experience (experience p))),
      (''projects'', JList (map dump_project (projects p))),
      (''skills'', JDict (map (\<lambda>(k, v). (k, dump_str_list v)) (skills p))),
      (''certifications'', dump_str_list (certifications p)),
      (''awards'', dump_str_list (awards p))] = Some p"
proof -
  have 1: "as_dict as_str (JDict (map (\<lambda>(k, v). (k, JStr v)) (personal_info p)))
           = Some (personal_info p)"
    by (rule as_dict_inverse) simp
  have 2: "as_list validate_education (JList (map dump_education (education p)))
           = Some (education p)"
    by (rule as_list_inverse) (rule validate_dump_education)
  have 3: "as_list validate_experience (JList (map dump_experience (experience p)))
           = Some (experience p)"
    by (rule as_list_inverse) (rule validate_dump_experience)
  have 4: "as_list validate_project (JList (map dump_project (projects p)))
           = Some (projects p)"
    by (rule as_list_inverse) (rule validate_dump_project)
  have 5: "as_dict (as_list as_str) (JDict (map (\<lambda>(k, v). (k, dump_str_list v)) (skills p)))
           = Some (skills p)"
    by (rule as_dict_inverse) (rule as_list_str_dump)
  show ?thesis
    unfolding validate_fields_def with_default_def
    by (simp add: 1 2 3 4 5 as_list_str_dump del: as_list.simps as_dict.simps)
qed

lemma UserProfile_model_dump: "UserProfile (model_dump p) = Inr p"
  unfolding model_dump_def by (simp only: UserProfile.simps validate_fields_dump option.case)

lemma migrate_edu_dump: "migrate_edu (dump_education e) = Inr (dump_education e)"
  by (simp add: migrate_edu_def dump_education_def dict_has_def)

lemma migrate_all_dump:
  "migrate_all (map dump_education es) = Inr (map dump_education es)"
  by (induction es) (simp_all add: migrate_edu_dump)

lemma migrate_model_dump: "migrate (model_dump p) = Inr (model_dump p)"
  by (simp add: migrate_def model_dump_def dict_has_def migrate_all_dump
      del: map_map)

lemma load_file_model_dump: "load_file (Json_text (model_dump p)) = Inr p"
  by (simp add: load_file_def json_load_def migrate_model_dump UserProfile_model_dump)

section \<open>Errors of \<open>load_file\<close>\<close>

text \<open>Reading, migrating and validating a file that exists never reports a missing file.\<close>

lemma py_in_error: "py_in k x = Inl e \<Longrightarrow> \<not> is_not_found e"
  by (cases x) auto

lemma py_getitem_error: "py_getitem x k = Inl e \<Longrightarrow> \<not> is_not_found e"
  by (cases x) (auto split: option.splits)

lemma py_iter_error: "py_iter x = Inl e \<Longrightarrow> \<not> is_not_found e"
  by (cases x) auto

lemma migrate_dict_error: "migrate_dict d g = Inl e \<Longrightarrow> \<not> is_not_found e"
  by (auto simp: migrate_dict_def Let_def split: if_splits json.splits list.splits option.splits)

lemma migrate_edu_error: "migrate_edu x = Inl e \<Longrightarrow> \<not> is_not_found e"
  unfolding migrate_edu_def
  by (auto split: sum.splits bool.splits json.splits
      dest: py_in_error py_getitem_error migrate_dict_error)

lemma migrate_all_error: "migrate_all xs = Inl e \<Longrightarrow> \<not> is_not_found e"
  by (induction xs arbitrary: e) (auto split: sum.splits dest: migrate_edu_error)

lemma migrate_error: "migrate x = Inl e \<Longrightarrow> \<not> is_not_found e"
  unfolding migrate_def
  by (auto split: sum.splits bool.splits json.splits prod.splits
      dest: py_in_error py_getitem_error py_iter_error migrate_all_error)

lemma UserProfile_error: "UserProfile x = Inl e \<Longrightarrow> \<not> is_not_found e"
  by (cases x) (auto split: option.splits)

lemma load_file_error: "load_file f = Inl e \<Longrightarrow> \<not> is_not_found e"
  unfolding load_file_def json_load_def
  by (auto split: sum.splits file_content.splits dest: migrate_error UserProfile_error)

lemma load_file_found: "load_file f \<noteq> Inl (not_found n)"
  using load_file_error [of f "not_found n"] by (auto simp: not_found_def)

lemma find_backup_None:
  "find_backup dirs path = None \<longleftrightarrow> (\<forall>d\<in>set dirs. path |\<notin>| fmdom d)"
  by (induction dirs) (auto split: option.splits simp: fmlookup_dom_iff)

section \<open>Loading a profile\<close>

text \<open>
  C8. \<open>load_profile\<close> raises the not-found error exactly for the names that have no
  file, and otherwise loads the file it finds; the backend variant looks for the file in
  the profiles directory and then in the backup directories, and raises the not-found
  error exactly when none of them has it. A file written from a profile loads as that
  profile.
\<close>

theorem load_profile_not_found:
  "(load_profile profiles_dir n = Inl (not_found n)
      \<longleftrightarrow> n @ ''.json'' |\<notin>| fmdom profiles_dir) \<and>
   (\<forall>f. fmlookup profiles_dir (n @ ''.json'') = Some f \<longrightarrow>
      load_profile profiles_dir n = load_file f \<and>
      backend_load_profile profiles_dir backup_dirs n = load_file f) \<and>
   (backend_load_profile profiles_dir backup_dirs n = Inl (not_found n)
      \<longleftrightarrow> n @ ''.json'' |\<notin>| fmdom profiles_dir \<and>
          (\<forall>d\<in>set backup_dirs. n @ ''.json'' |\<notin>| fmdom d)) \<and>
   (\<forall>f. n @ ''.json'' |\<notin>| fmdom profiles_dir \<and>
        find_backup backup_dirs (n @ ''.json'') = Some f \<longrightarrow>
      backend_load_profile profiles_dir backup_dirs n = load_file f) \<and>
   load_file (Json_text (model_dump p)) = Inr p"
proof (intro conjI allI impI)
  show "load_profile profiles_dir n = Inl (not_found n)
      \<longleftrightarrow> n @ ''.json'' |\<notin>| fmdom profiles_dir"
    by (auto simp: load_profile_def fmlookup_dom_iff load_file_found split: option.splits)
next
  fix f assume "fmlookup profiles_dir (n @ ''.json'') = Some f"
  then show "load_profile profiles_dir n = load_file f"
    and "backend_load_profile profiles_dir backup_dirs n = load_file f"
    by (simp_all add: load_profile_def backend_load_profile_def)
next
  show "backend_load_profile profiles_dir backup_dirs n = Inl (not_found n)
      \<longleftrightarrow> n @ ''.json'' |\<notin>| fmdom profiles_dir \<and>
          (\<forall>d\<in>set backup_dirs. n @ ''.json'' |\<notin>| fmdom d)"
  proof (cases "fmlookup profiles_dir (n @ ''.json'')")
    case (Some f)
    then show ?thesis
      by (simp add: backend_load_profile_def fmlookup_dom_iff load_file_found)
  next
    case None
    show ?thesis
    proof (cases "find_backup backup_dirs (n @ ''.json'')")
      case (Some f)
      then have "\<not> (\<forall>d\<in>set backup_dirs. n @ ''.json'' |\<notin>| fmdom d)"
        using find_backup_None [of backup_dirs "n @ ''.json''"] by simp
      then show ?thesis
        using None Some by (simp add: backend_load_profile_def load_file_found)
    next
      case N: None
      then have "\<forall>d\<in>set backup_dirs. n @ ''.json'' |\<notin>| fmdom d"
        by (simp add: find_backup_None)
      then show ?thesis
        using None N by (simp add: backend_load_profile_def fmlookup_dom_iff)
    qed
  qed
next
  fix f assume "n @ ''.json'' |\<notin>| fmdom profiles_dir \<and>
        find_backup backup_dirs (n @ ''.json'') = Some f"
  then show "backend_load_profile profiles_dir backup_dirs n = load_file f"
    by (auto simp: backend_load_profile_def fmlookup_dom_iff split: option.splits)
next
  show "load_file (Json_text (model_dump p)) = Inr p" by (rule load_file_model_dump)
qed

theorem load_profile_not_found_witness:
  "load_profile (fmupd ''alice.json'' (Json_text (model_dump sample_profile)) fmempty) ''bob''
     = Inl (not_found ''bob'') \<and>
   load_profile (fmupd ''alice.json'' (Json_text (model_dump sample_profile)) fmempty) ''alice''
     = Inr sample_profile \<and>
   backend_load_profile fmempty
      [fmempty, fmupd ''alice.json'' (Json_text (model_dump sample_profile)) fmempty] ''alice''
     = Inr sample_profile \<and>
   backend_load_profile fmempty [fmempty] ''alice'' = Inl (not_found ''alice'')"
  using
    load_profile_not_found [of "fmupd ''alice.json'' (Json_text (model_dump sample_profile)) fmempty"
      "''bob''" "[]" sample_profile]
    load_profile_not_found [of "fmupd ''alice.json'' (Json_text (model_dump sample_profile)) fmempty"
      "''alice''" "[]" sample_profile]
    load_profile_not_found [of fmempty "''alice''"
      "[fmempty, fmupd ''alice.json'' (Json_text (model_dump sample_profile)) fmempty]"
      sample_profile]
    load_profile_not_found [of fmempty "''alice''" "[fmempty]" sample_profile]
  by simp

section \<open>Saving a profile\<close>

lemma takeWhile_append_stop:
  "(\<forall>x\<in>set t. \<not> P x) \<Longrightarrow> takeWhile P (xs @ t) = takeWhile P xs"
  by (induction xs) (auto simp: takeWhile_eq_Nil_iff)

lemma dropWhile_append_stop:
  "(\<forall>x\<in>set t. \<not> P x) \<Longrightarrow> dropWhile P (xs @ t) = dropWhile P xs @ t"
  by (induction xs) (auto simp: dropWhile_eq_self_iff)

lemma dropWhile_append_keep:
  "dropWhile P s = c # cs \<Longrightarrow> dropWhile P (s @ t) = c # (cs @ t)"
  by (induction s) (auto split: if_splits)

lemma split_ws_all_space: "\<forall>c\<in>set s. isspace c \<Longrightarrow> split_ws s = []"
  by (rule split_ws_unfold_Nil) simp

lemma split_ws_trailing:
  "\<forall>c\<in>set t. isspace c \<Longrightarrow> split_ws (s @ t) = split_ws s"
proof (induction s rule: split_ws.induct)
  case (1 s)
  show ?case
  proof (cases "dropWhile isspace s")
    case Nil
    then have "\<forall>c\<in>set (s @ t). isspace c" using "1.prems" by auto
    then have "split_ws (s @ t) = []" by (rule split_ws_all_space)
    then show ?thesis using Nil by (simp add: split_ws_unfold_Nil)
  next
    case (Cons c cs)
    let ?N = "\<lambda>x. \<not> isspace x"
    have d: "dropWhile isspace (s @ t) = c # (cs @ t)"
      using Cons by (rule dropWhile_append_keep)
    have st: "\<forall>x\<in>set t. \<not> ?N x" using "1.prems" by simp
    have tw: "takeWhile ?N (c # (cs @ t)) = takeWhile ?N (c # cs)"
      using takeWhile_append_stop [OF st, of "c # cs"] by simp
    have dw: "dropWhile ?N (c # (cs @ t)) = dropWhile ?N (c # cs) @ t"
      using dropWhile_append_stop [OF st, of "c # cs"] by simp
    have "split_ws (s @ t) = takeWhile ?N (c # cs) # split_ws (dropWhile ?N (c # cs) @ t)"
      by (simp only: split_ws_unfold_Cons [OF d] tw dw)
    also have "split_ws (dropWhile ?N (c # cs) @ t) = split_ws (dropWhile ?N (c # cs))"
      using "1.IH" [OF Cons "1.prems"] .
    finally show ?thesis by (simp only: split_ws_unfold_Cons [OF Cons])
  qed
qed

lemma split_ws_leading: "split_ws (dropWhile isspace s) = split_ws s"
  by (subst split_ws.simps, subst (2) split_ws.simps) simp

lemma split_ws_strip: "split_ws (strip s) = split_ws s"
proof -
  let ?s = "dropWhile isspace s"
  let ?t = "rev (takeWhile isspace (rev ?s))"
  have "rev (rev ?s) = rev (takeWhile isspace (rev ?s) @ dropWhile isspace (rev ?s))"
    by (simp only: takeWhile_dropWhile_id)
  then have e: "?s = strip s @ ?t" by (simp only: rev_rev_ident rev_append strip_def)
  have "\<forall>c\<in>set ?t. isspace c" by (auto dest: set_takeWhileD)
  then have "split_ws (strip s @ ?t) = split_ws (strip s)" by (rule split_ws_trailing)
  then have "split_ws ?s = split_ws (strip s)" using e by simp
  then show ?thesis by (simp add: split_ws_leading)
qed

text \<open>The digits of a number hold no dot.\<close>

lemma digit_char_code: "d < 10 \<Longrightarrow> of_char (digit_char d) = 48 + d"
  by (simp add: digit_char_def)

lemma digit_char_not_dot: "d < 10 \<Longrightarrow> digit_char d \<noteq> CHR ''.''"
proof
  assume "d < 10" and "digit_char d = CHR ''.''"
  then have "(of_char (digit_char d) :: nat) = of_char CHR ''.''" by simp
  then show False using \<open>d < 10\<close> by (simp add: digit_char_code)
qed

lemma str_nat_no_dot: "CHR ''.'' \<notin> set (str_nat k)"
proof (induction k rule: str_nat.induct)
  case (1 n)
  show ?case
  proof (cases "n < 10")
    case True
    then show ?thesis using digit_char_not_dot [of n] by (subst str_nat.simps) auto
  next
    case False
    have "n mod 10 < 10" by simp
    then have "digit_char (n mod 10) \<noteq> CHR ''.''" by (rule digit_char_not_dot)
    then show ?thesis using False "1.IH" by (subst str_nat.simps) auto
  qed
qed

lemma str_nat_2: "str_nat 2 = ''2''" and str_nat_3: "str_nat 3 = ''3''"
  by code_simp+

text \<open>The version found is the first free one from \<open>v\<close> on.\<close>

lemma find_version_first_free:
  "\<exists>k\<ge>v. find_version d c v = (c @ ''_v'' @ str_nat k @ ''.json'', c @ ''_v'' @ str_nat k) \<and>
     c @ ''_v'' @ str_nat k @ ''.json'' |\<notin>| fmdom d \<and>
     (\<forall>j. v \<le> j \<and> j < k \<longrightarrow> c @ ''_v'' @ str_nat j @ ''.json'' |\<in>| fmdom d)"
proof (induction d c v rule: find_version.induct)
  case (1 d c v)
  show ?case
  proof (cases "c @ ''_v'' @ str_nat v @ ''.json'' |\<in>| fmdom d")
    case False
    then have "find_version d c v = (c @ ''_v'' @ str_nat v @ ''.json'', c @ ''_v'' @ str_nat v)"
      by (subst find_version.simps) (simp add: Let_def)
    moreover have "\<forall>j. v \<le> j \<and> j < v \<longrightarrow> c @ ''_v'' @ str_nat j @ ''.json'' |\<in>| fmdom d"
      by auto
    ultimately show ?thesis using False by (intro exI [of _ v]) (simp only: le_refl simp_thms)
  next
    case True
    then have step: "find_version d c v = find_version d c (v + 1)"
      by (subst find_version.simps) (simp add: Let_def)
    from True obtain k where k: "v + 1 \<le> k"
      "find_version d c (v + 1) = (c @ ''_v'' @ str_nat k @ ''.json'', c @ ''_v'' @ str_nat k)"
      "c @ ''_v'' @ str_nat k @ ''.json'' |\<notin>| fmdom d"
      "\<forall>j. v + 1 \<le> j \<and> j < k \<longrightarrow> c @ ''_v'' @ str_nat j @ ''.json'' |\<in>| fmdom d"
      using "1.IH" [OF refl refl] by auto
    have "\<forall>j. v \<le> j \<and> j < k \<longrightarrow> c @ ''_v'' @ str_nat j @ ''.json'' |\<in>| fmdom d"
    proof (intro allI impI)
      fix j assume "v \<le> j \<and> j < k"
      then consider "j = v" | "v + 1 \<le> j \<and> j < k" by linarith
      then show "c @ ''_v'' @ str_nat j @ ''.json'' |\<in>| fmdom d"
        using True k(4) by cases auto
    qed
    then show ?thesis using k step by (intro exI [of _ k]) simp
  qed
qed

lemma create_profile_plain:
  assumes "replace \<or> cleaned_name n @ ''.json'' |\<notin>| fmdom d"
  shows "create_profile d n p replace
         = (fmupd (cleaned_name n @ ''.json'') (Json_text (model_dump p)) d,
            cleaned_name n @ ''.json'', cleaned_name n)"
  using assms by (auto simp: create_profile_def cleaned_name_def Let_def split_ws_strip)

lemma create_profile_versioned:
  assumes "\<not> replace" "cleaned_name n @ ''.json'' |\<in>| fmdom d"
  shows "create_profile d n p replace
         = (fmupd (fst (find_version d (cleaned_name n) 2)) (Json_text (model_dump p)) d,
            find_version d (cleaned_name n) 2)"
  using assms
  by (simp add: create_profile_def cleaned_name_def Let_def split_ws_strip split: prod.splits)

lemma cleaned_name_no_dot: "CHR ''.'' \<notin> set (cleaned_name n)"
  by (simp add: cleaned_name_def)

text \<open>What \<open>create_profile\<close> returns, in both cases.\<close>

lemma create_profile_result:
  "\<exists>name. create_profile d n p replace
            = (fmupd (name @ ''.json'') (Json_text (model_dump p)) d, name @ ''.json'', name) \<and>
     CHR ''.'' \<notin> set name \<and>
     (name = cleaned_name n \<or> (\<exists>k\<ge>2. name = cleaned_name n @ ''_v'' @ str_nat k))"
proof (cases "replace \<or> cleaned_name n @ ''.json'' |\<notin>| fmdom d")
  case True
  then show ?thesis
    using create_profile_plain [OF True, of p] cleaned_name_no_dot by auto
next
  case False
  then have a: "\<not> replace" "cleaned_name n @ ''.json'' |\<in>| fmdom d" by auto
  obtain k where k: "2 \<le> k"
    "find_version d (cleaned_name n) 2
       = (cleaned_name n @ ''_v'' @ str_nat k @ ''.json'', cleaned_name n @ ''_v'' @ str_nat k)"
    using find_version_first_free [of 2 d "cleaned_name n"] by auto
  have "CHR ''.'' \<notin> set (cleaned_name n @ ''_v'' @ str_nat k)"
    using cleaned_name_no_dot str_nat_no_dot by simp
  then show ?thesis
    using create_profile_versioned [OF a, of p] k
    by (intro exI [of _ "cleaned_name n @ ''_v'' @ str_nat k"]) auto
qed


lemma create_profile_collision:
  assumes "cleaned_name n @ ''.json'' |\<in>| fmdom d"
  shows "\<exists>k\<ge>2. create_profile d n p False
           = (fmupd (cleaned_name n @ ''_v'' @ str_nat k @ ''.json'') (Json_text (model_dump p)) d,
              cleaned_name n @ ''_v'' @ str_nat k @ ''.json'',
              cleaned_name n @ ''_v'' @ str_nat k) \<and>
         cleaned_name n @ ''_v'' @ str_nat k @ ''.json'' |\<notin>| fmdom d \<and>
         (\<forall>j. 2 \<le> j \<and> j < k \<longrightarrow> cleaned_name n @ ''_v'' @ str_nat j @ ''.json'' |\<in>| fmdom d)"
proof -
  obtain k where k: "2 \<le> k"
    "find_version d (cleaned_name n) 2
       = (cleaned_name n @ ''_v'' @ str_nat k @ ''.json'', cleaned_name n @ ''_v'' @ str_nat k)"
    "cleaned_name n @ ''_v'' @ str_nat k @ ''.json'' |\<notin>| fmdom d"
    "\<forall>j. 2 \<le> j \<and> j < k \<longrightarrow> cleaned_name n @ ''_v'' @ str_nat j @ ''.json'' |\<in>| fmdom d"
    using find_version_first_free [of 2 d "cleaned_name n"] by auto
  have "create_profile d n p False
        = (fmupd (cleaned_name n @ ''_v'' @ str_nat k @ ''.json'') (Json_text (model_dump p)) d,
           cleaned_name n @ ''_v'' @ str_nat k @ ''.json'', cleaned_name n @ ''_v'' @ str_nat k)"
    using create_profile_versioned [of False n d p] assms k(2) by simp
  then show ?thesis using k(1,3,4) by (intro exI [of _ k]) simp
qed

lemma create_profile_v2:
  assumes "cleaned_name n @ ''.json'' |\<in>| fmdom d"
    and "cleaned_name n @ ''_v2.json'' |\<notin>| fmdom d"
  shows "create_profile d n p False
         = (fmupd (cleaned_name n @ ''_v2.json'') (Json_text (model_dump p)) d,
            cleaned_name n @ ''_v2.json'', cleaned_name n @ ''_v2'')"
proof -
  obtain k where k: "2 \<le> k"
    "create_profile d n p False
       = (fmupd (cleaned_name n @ ''_v'' @ str_nat k @ ''.json'') (Json_text (model_dump p)) d,
          cleaned_name n @ ''_v'' @ str_nat k @ ''.json'', cleaned_name n @ ''_v'' @ str_nat k)"
    "\<forall>j. 2 \<le> j \<and> j < k \<longrightarrow> cleaned_name n @ ''_v'' @ str_nat j @ ''.json'' |\<in>| fmdom d"
    using create_profile_collision [OF assms(1), of p] by auto
  have "k = 2"
  proof (rule ccontr)
    assume "k \<noteq> 2"
    then have "2 \<le> (2::nat) \<and> 2 < k" using k(1) by simp
    then have "cleaned_name n @ ''_v'' @ str_nat 2 @ ''.json'' |\<in>| fmdom d" using k(3) by blast
    then show False using assms(2) by (simp add: str_nat_2)
  qed
  then show ?thesis using k(2) by (simp add: str_nat_2)
qed





text \<open>No file of a managed directory has a dot in the name before \<open>.json\<close>.\<close>

lemma managed_names:
  "managed d \<Longrightarrow> path |\<in>| fmdom d \<Longrightarrow> \<exists>name. path = name @ ''.json'' \<and> CHR ''.'' \<notin> set name"
proof (induction arbitrary: path rule: managed.induct)
  case empty
  then show ?case by simp
next
  case (created d n p replace)
  obtain name where r: "create_profile d n p replace
            = (fmupd (name @ ''.json'') (Json_text (model_dump p)) d, name @ ''.json'', name)"
    and nd: "CHR ''.'' \<notin> set name"
    using create_profile_result [of d n p replace] by blast
  from created.prems r have "path = name @ ''.json'' \<or> path |\<in>| fmdom d" by auto
  then show ?case using nd created.IH by blast
next
  case (deleted d n)
  then have "path |\<in>| fmdom d"
    by (cases "n @ ''.json'' |\<in>| fmdom d") (auto simp: delete_profile_def Let_def)
  then show ?case by (rule deleted.IH)
qed

lemma managed_no_dotted_file:
  assumes "managed d" and "CHR ''.'' \<in> set n"
  shows "n @ ''.json'' |\<notin>| fmdom d"
proof
  assume "n @ ''.json'' |\<in>| fmdom d"
  then obtain name where "n @ ''.json'' = name @ ''.json''" "CHR ''.'' \<notin> set name"
    using managed_names [OF assms(1)] by blast
  then show False using assms(2) by simp
qed

text \<open>
  C10. \<open>create_profile\<close> stores the profile under the name it returns. That name is the
  words of the requested name joined by single spaces with every dot taken out, alone
  or, after a collision, followed by a version suffix; it holds no dot. So a requested
  name with a dot is not the name stored under, no file of the requested name is written,
  and \<open>load_profile\<close> of the requested name fails, in every directory that the profile
  manager has produced and in every other one that did not hold such a file before.
\<close>

theorem create_profile_cleans_name:
  "\<exists>name. create_profile d n p replace
            = (fmupd (name @ ''.json'') (Json_text (model_dump p)) d, name @ ''.json'', name) \<and>
     (name = cleaned_name n \<or> (\<exists>k\<ge>2. name = cleaned_name n @ ''_v'' @ str_nat k)) \<and>
     (replace \<or> cleaned_name n @ ''.json'' |\<notin>| fmdom d \<longrightarrow> name = cleaned_name n) \<and>
     cleaned_name n = filter (\<lambda>c. c \<noteq> CHR ''.'') (join '' '' (split_ws (strip n))) \<and>
     CHR ''.'' \<notin> set name \<and>
     (CHR ''.'' \<in> set n \<longrightarrow>
        name \<noteq> n \<and>
        (n @ ''.json'' |\<notin>| fmdom d \<or> managed d \<longrightarrow>
           load_profile (fst (create_profile d n p replace)) n = Inl (not_found n)))"
proof -
  obtain name where r: "create_profile d n p replace
            = (fmupd (name @ ''.json'') (Json_text (model_dump p)) d, name @ ''.json'', name)"
    and nd: "CHR ''.'' \<notin> set name"
    and v: "name = cleaned_name n \<or> (\<exists>k\<ge>2. name = cleaned_name n @ ''_v'' @ str_nat k)"
    using create_profile_result [of d n p replace] by blast
  have pl: "name = cleaned_name n" if "replace \<or> cleaned_name n @ ''.json'' |\<notin>| fmdom d"
    using create_profile_plain [OF that, of p] r by simp
  have cl: "cleaned_name n = filter (\<lambda>c. c \<noteq> CHR ''.'') (join '' '' (split_ws (strip n)))"
    by (simp add: cleaned_name_def split_ws_strip)
  have ne: "name \<noteq> n" if "CHR ''.'' \<in> set n" using that nd by auto
  have lf: "load_profile (fst (create_profile d n p replace)) n = Inl (not_found n)"
    if "CHR ''.'' \<in> set n" "n @ ''.json'' |\<notin>| fmdom d \<or> managed d"
  proof -
    have "n @ ''.json'' |\<notin>| fmdom d"
      using that managed_no_dotted_file [of d n] by blast
    then have "fmlookup (fmupd (name @ ''.json'') (Json_text (model_dump p)) d) (n @ ''.json'') = None"
      using ne [OF that(1)] by (simp add: fmlookup_dom_iff)
    then show ?thesis by (simp add: r load_profile_def)
  qed
  show ?thesis
    using r v pl cl nd ne lf by (intro exI [of _ name]) blast
qed

theorem create_profile_cleans_name_witness:
  "create_profile fmempty ''  J.  Doe '' sample_profile False
     = (fmupd ''J Doe.json'' (Json_text (model_dump sample_profile)) fmempty, ''J Doe.json'', ''J Doe'') \<and>
   load_profile (fst (create_profile fmempty ''  J.  Doe '' sample_profile False)) ''  J.  Doe ''
     = Inl (not_found ''  J.  Doe '')"
proof -
  have c: "cleaned_name ''  J.  Doe '' = ''J Doe''"
    unfolding cleaned_name_def by code_simp
  show ?thesis
    using create_profile_cleans_name [of fmempty "''  J.  Doe ''" sample_profile False]
    by (auto simp: c)
qed

section \<open>Round trip of a profile\<close>

text \<open>
  C5, as the code has it. Loading under the name that \<open>create_profile\<close> returns gives
  back the profile saved, every list in its order. The returned name is the requested
  one when that name is its own cleaned form and either replacement is asked for or no
  file of that name exists; then loading under the requested name gives the profile back.
  When the returned name is another one, loading under the requested name gives what
  the directory held under that name before the save. So loading under the requested
  name gives the saved profile back exactly when the returned name is the requested one
  or the file stored before under the requested name loads as the same profile.
\<close>

theorem save_load_round_trip:
  "load_profile (fst (create_profile d n p replace)) (snd (snd (create_profile d n p replace)))
     = Inr p \<and>
   (cleaned_name n = n \<and> (replace \<or> n @ ''.json'' |\<notin>| fmdom d) \<longrightarrow>
      load_profile (fst (create_profile d n p replace)) n = Inr p) \<and>
   (cleaned_name n = n \<and> (replace \<or> n @ ''.json'' |\<notin>| fmdom d) \<longrightarrow>
      snd (snd (create_profile d n p replace)) = n) \<and>
   (snd (snd (create_profile d n p replace)) \<noteq> n \<longrightarrow>
      load_profile (fst (create_profile d n p replace)) n = load_profile d n) \<and>
   (load_profile (fst (create_profile d n p replace)) n = Inr p \<longleftrightarrow>
      snd (snd (create_profile d n p replace)) = n \<or> load_profile d n = Inr p)"
proof -
  obtain name where r: "create_profile d n p replace
            = (fmupd (name @ ''.json'') (Json_text (model_dump p)) d, name @ ''.json'', name)"
    using create_profile_result [of d n p replace] by blast
  have 1: "load_profile (fst (create_profile d n p replace))
             (snd (snd (create_profile d n p replace))) = Inr p"
    by (simp add: r load_profile_def load_file_model_dump)
  have 3: "snd (snd (create_profile d n p replace)) = n"
    if "cleaned_name n = n \<and> (replace \<or> n @ ''.json'' |\<notin>| fmdom d)"
  proof -
    have "replace \<or> cleaned_name n @ ''.json'' |\<notin>| fmdom d" using that by simp
    then have "name = n" using create_profile_plain [of replace n d p] r that by simp
    then show ?thesis by (simp add: r)
  qed
  have 4: "load_profile (fst (create_profile d n p replace)) n = load_profile d n"
    if "snd (snd (create_profile d n p replace)) \<noteq> n"
  proof -
    have "name \<noteq> n" using that by (simp add: r)
    then have "fmlookup (fmupd (name @ ''.json'') (Json_text (model_dump p)) d) (n @ ''.json'')
               = fmlookup d (n @ ''.json'')" by simp
    then show ?thesis by (simp add: r load_profile_def)
  qed
  have 5: "load_profile (fst (create_profile d n p replace)) n = Inr p \<longleftrightarrow>
      snd (snd (create_profile d n p replace)) = n \<or> load_profile d n = Inr p"
  proof (cases "snd (snd (create_profile d n p replace)) = n")
    case True
    then show ?thesis using 1 by simp
  next
    case False
    then show ?thesis using 4 by simp
  qed
  have 2: "load_profile (fst (create_profile d n p replace)) n = Inr p"
    if "cleaned_name n = n \<and> (replace \<or> n @ ''.json'' |\<notin>| fmdom d)"
  proof -
    have "replace \<or> cleaned_name n @ ''.json'' |\<notin>| fmdom d" using that by simp
    then have "name = n" using create_profile_plain [of replace n d p] r that by simp
    then show ?thesis using 1 r by simp
  qed
  show ?thesis using 1 2 3 4 5 by blast
qed

theorem save_load_round_trip_witness:
  "cleaned_name ''Ada Obi'' = ''Ada Obi'' \<and>
   load_profile (fst (create_profile fmempty ''Ada Obi'' sample_profile False)) ''Ada Obi''
     = Inr sample_profile \<and>
   snd (snd (create_profile fmempty ''Ada Obi'' sample_profile False)) = ''Ada Obi'' \<and>
   snd (snd (create_profile
       (fmupd ''Ada Obi.json'' (Json_text (model_dump sample_profile)) fmempty)
       ''Ada Obi'' (sample_profile\<lparr>summary := ''Data engineer''\<rparr>) False)) \<noteq> ''Ada Obi'' \<and>
   load_profile (fst (create_profile
       (fmupd ''Ada Obi.json'' (Json_text (model_dump sample_profile)) fmempty)
       ''Ada Obi'' (sample_profile\<lparr>summary := ''Data engineer''\<rparr>) False)) ''Ada Obi''
     = Inr sample_profile"
proof -
  have c: "cleaned_name ''Ada Obi'' = ''Ada Obi''"
    unfolding cleaned_name_def by code_simp
  let ?d = "fmupd ''Ada Obi.json'' (Json_text (model_dump sample_profile)) fmempty"
  let ?q = "sample_profile\<lparr>summary := ''Data engineer''\<rparr>"
  have v: "create_profile ?d ''Ada Obi'' ?q False
           = (fmupd ''Ada Obi_v2.json'' (Json_text (model_dump ?q)) ?d,
              ''Ada Obi_v2.json'', ''Ada Obi_v2'')"
    using create_profile_v2 [of "''Ada Obi''" ?d ?q] by (simp add: c)
  have o: "load_profile ?d ''Ada Obi'' = Inr sample_profile"
    by (simp add: load_profile_def load_file_model_dump)
  show ?thesis
    using save_load_round_trip [of fmempty "''Ada Obi''" sample_profile False]
      save_load_round_trip [of ?d "''Ada Obi''" ?q False]
    by (simp add: c v o)
qed

text \<open>
  The claim as it is written fails for a name that is not its own cleaned form: the
  profile saved as \<open>J. Doe\<close> is stored as \<open>J Doe\<close>, and loading \<open>J. Doe\<close> finds nothing.
\<close>

theorem save_load_same_name_counterexample:
  "load_profile (fst (create_profile fmempty ''J. Doe'' sample_profile False)) ''J. Doe''
     \<noteq> Inr sample_profile"
proof -
  have c: "cleaned_name ''J. Doe'' = ''J Doe''"
    unfolding cleaned_name_def by code_simp
  have "create_profile fmempty ''J. Doe'' sample_profile False
        = (fmupd ''J Doe.json'' (Json_text (model_dump sample_profile)) fmempty,
           ''J Doe.json'', ''J Doe'')"
    using create_profile_plain [of False "''J. Doe''" fmempty sample_profile] by (simp add: c)
  then show ?thesis by (simp add: load_profile_def)
qed


section \<open>Migration of the legacy education format\<close>

lemma dict_has_map_of: "dict_has d k \<longleftrightarrow> map_of d k \<noteq> None"
  by (induction d) (auto simp: dict_has_def)

text \<open>
  A legacy entry whose \<open>graduation_date\<close> is a string of other than two words is left
  as it is by the migration, without \<open>start_date\<close> and \<open>end_date\<close>, and the validation
  of the profile then fails.
\<close>

lemma migrate_dict_other_tokens:
  "length (split_ws g) \<noteq> 2 \<Longrightarrow> migrate_dict d (JStr g) = Inr d"
  by (auto simp: migrate_dict_def split: list.splits)

lemma validate_education_no_start:
  "map_of d ''start_date'' = None \<Longrightarrow> validate_education (JDict d) = None"
  by (simp add: required_def split: Option.bind_splits)

lemma legacy_other_tokens_fails:
  assumes "map_of d ''graduation_date'' = Some (JStr g)"
    and "map_of d ''start_date'' = None"
    and "length (split_ws g) \<noteq> 2"
  shows "load_file (Json_text (JDict [(''education'', JList [JDict d])])) = Inl ValidationError"
proof -
  have "migrate_edu (JDict d) = Inr (JDict d)"
    using assms by (simp add: migrate_edu_def dict_has_map_of migrate_dict_other_tokens)
  then have "migrate (JDict [(''education'', JList [JDict d])])
             = Inr (JDict [(''education'', JList [JDict d])])"
    by (simp add: migrate_def dict_has_def)
  moreover have "UserProfile (JDict [(''education'', JList [JDict d])]) = Inl ValidationError"
    using validate_education_no_start [OF assms(2)]
    by (simp add: validate_fields_def with_default_def)
  ultimately show ?thesis by (simp add: load_file_def json_load_def)
qed

text \<open>
  C3. A stored profile whose only education entry is in the legacy format: with
  \<open>graduation_date\<close> \<open>May 2024\<close> it loads with \<open>start_date\<close> \<open>May 2020\<close> and \<open>end_date\<close>
  \<open>May 2024\<close>; with a two-word date whose year is no number it loads with \<open>start_date\<close>
  \<open>Sep 2020\<close> and the original string as \<open>end_date\<close>; with \<open>2024\<close> or \<open>May 15 2024\<close>,
  which are not two words, \<open>load_profile\<close> fails with a validation error instead of
  keeping the string as \<open>end_date\<close>.
\<close>

theorem legacy_graduation_date_load:
  "load_profile (fmupd ''old.json'' (Json_text (JDict [(''education'', JList [JDict
       [(''degree'', JStr ''BSc''), (''institution'', JStr ''State University''),
        (''graduation_date'', JStr ''May 2024'')]])])) fmempty) ''old''
     = Inr \<lparr>personal_info = default_personal_info, summary = [], my_story = [],
            education = [\<lparr>edu_degree = ''BSc'', edu_institution = ''State University'',
              edu_location = [], edu_start_date = ''May 2020'', edu_end_date = ''May 2024'',
              edu_gpa = None, edu_relevant_coursework = [], edu_achievements = []\<rparr>],
            experience = [], projects = [], skills = default_skills,
            certifications = [], awards = []\<rparr> \<and>
   load_profile (fmupd ''old.json'' (Json_text (JDict [(''education'', JList [JDict
       [(''degree'', JStr ''BSc''), (''institution'', JStr ''State University''),
        (''graduation_date'', JStr ''Spring 2024A'')]])])) fmempty) ''old''
     = Inr \<lparr>personal_info = default_personal_info, summary = [], my_story = [],
            education = [\<lparr>edu_degree = ''BSc'', edu_institution = ''State University'',
              edu_location = [], edu_start_date = ''Sep 2020'', edu_end_date = ''Spring 2024A'',
              edu_gpa = None, edu_relevant_coursework = [], edu_achievements = []\<rparr>],
            experience = [], projects = [], skills = default_skills,
            certifications = [], awards = []\<rparr> \<and>
   load_profile (fmupd ''old.json'' (Json_text (JDict [(''education'', JList [JDict
       [(''degree'', JStr ''BSc''), (''institution'', JStr ''State University''),
        (''graduation_date'', JStr ''2024'')]])])) fmempty) ''old''
     = Inl ValidationError \<and>
   load_profile (fmupd ''old.json'' (Json_text (JDict [(''education'', JList [JDict
       [(''degree'', JStr ''BSc''), (''institution'', JStr ''State University''),
        (''graduation_date'', JStr ''May 15 2024'')]])])) fmempty) ''old''
     = Inl ValidationError"
proof -
  have s1: "split_ws ''May 2024'' = [''May'', ''2024'']" by code_simp
  have s2: "split_ws ''Spring 2024A'' = [''Spring'', ''2024A'']" by code_simp
  have s3: "split_ws ''2024'' = [''2024'']" by code_simp
  have s4: "split_ws ''May 15 2024'' = [''May'', ''15'', ''2024'']" by code_simp
  have i1: "py_int ''2024'' = Some 2024" by code_simp
  have i2: "py_int ''2024A'' = None" by code_simp
  have t1: "str_int 2020 = ''2020''" by code_simp
  show ?thesis
    by (simp add: load_profile_def load_file_def json_load_def migrate_def migrate_edu_def
        migrate_dict_def dict_has_def dict_del_def s1 s2 s3 s4 i1 i2 t1
        validate_fields_def with_default_def required_def)
qed


section \<open>Extracting JSON: the three strategies\<close>

lemma dropWhile_until: "x \<notin> set pre \<Longrightarrow> dropWhile (\<lambda>c. c \<noteq> x) (pre @ x # r) = x # r"
  by (induction pre) auto

lemma dropWhile_spaces:
  "\<forall>c\<in>set ws. isspace c \<Longrightarrow> \<not> isspace x \<Longrightarrow> dropWhile isspace (ws @ x # r) = x # r"
  by (induction ws) auto

lemma search_braces_between:
  assumes "CHR ''{'' \<notin> set pre" and "CHR ''}'' \<notin> set post"
  shows "search_braces (pre @ CHR ''{'' # body @ ''}'' @ post) = Some (CHR ''{'' # body @ ''}'')"
proof -
  have d: "dropWhile (\<lambda>c. c \<noteq> CHR ''{'') (pre @ CHR ''{'' # body @ ''}'' @ post)
           = CHR ''{'' # body @ ''}'' @ post"
    using dropWhile_until [OF assms(1)] by simp
  have r: "dropWhile (\<lambda>c. c \<noteq> CHR ''}'') (rev post @ CHR ''}'' # rev body) = CHR ''}'' # rev body"
    using assms(2) by (intro dropWhile_until) simp
  show ?thesis unfolding search_braces_def d by (simp add: r)
qed

lemma search_braces_None:
  "search_braces text = None \<longleftrightarrow> (\<forall>a b c. text \<noteq> a @ ''{'' @ b @ ''}'' @ c)"
proof
  assume n: "search_braces text = None"
  show "\<forall>a b c. text \<noteq> a @ ''{'' @ b @ ''}'' @ c"
  proof (intro allI notI)
    fix a b c assume t: "text = a @ ''{'' @ b @ ''}'' @ c"
    obtain a1 a2 where a: "a @ ''{'' = a1 @ CHR ''{'' # a2" "CHR ''{'' \<notin> set a1"
      using split_list_first [of "CHR ''{''" "a @ ''{''"] by auto
    have "text = (a @ ''{'') @ b @ ''}'' @ c" using t by simp
    then have "text = a1 @ CHR ''{'' # (a2 @ b @ ''}'' @ c)" by (simp only: a(1)) simp
    then have "dropWhile (\<lambda>c. c \<noteq> CHR ''{'') text = CHR ''{'' # (a2 @ b @ ''}'' @ c)"
      using dropWhile_until [OF a(2)] by simp
    then show False using n by (simp add: search_braces_def)
  qed
next
  assume h: "\<forall>a b c. text \<noteq> a @ ''{'' @ b @ ''}'' @ c"
  show "search_braces text = None"
  proof (cases "dropWhile (\<lambda>c. c \<noteq> CHR ''{'') text")
    case Nil
    then show ?thesis unfolding search_braces_def by (simp only: list.case)
  next
    case (Cons x rest)
    have "\<not> x \<noteq> CHR ''{''" using Cons by (rule dropWhile_head)
    then have x: "x = CHR ''{''" by simp
    have t: "text = takeWhile (\<lambda>c. c \<noteq> CHR ''{'') text @ ''{'' @ rest"
      using takeWhile_dropWhile_id [of "\<lambda>c. c \<noteq> CHR ''{''" "text"] Cons x by simp
    have "CHR ''}'' \<notin> set rest"
    proof
      assume "CHR ''}'' \<in> set rest"
      then obtain b c where "rest = b @ ''}'' @ c" using split_list [of "CHR ''}''" rest] by auto
      then have "text = takeWhile (\<lambda>c. c \<noteq> CHR ''{'') text @ ''{'' @ b @ ''}'' @ c"
        using t by simp
      then show False using h by blast
    qed
    then show ?thesis using Cons by (simp add: search_braces_def)
  qed
qed

text \<open>The fence pattern needs a \<open>{\<close> with a \<open>}\<close> after it, as the brace pattern does.\<close>

lemma lazy_body_Some: "lazy_body acc r = Some g \<Longrightarrow> CHR ''}'' \<in> set r"
  by (induction r arbitrary: acc) (auto split: if_splits)

lemma match_fence_at_braces:
  assumes "match_fence_at s = Some g"
  shows "\<exists>a b c. s = a @ ''{'' @ b @ ''}'' @ c"
proof -
  from assms obtain r cs where r: "dropWhile isspace r = CHR ''{'' # cs" "lazy_body ''{'' cs = Some g"
    and s: "\<exists>q. s = q @ r"
  proof -
    have t3: "take 3 s = ''```''" using assms by (auto simp: match_fence_at_def split: if_splits)
    let ?r = "if take 4 (drop 3 s) = ''json'' then drop 4 (drop 3 s) else drop 3 s"
    have "\<exists>q. s = q @ ?r"
    proof (cases "take 4 (drop 3 s) = ''json''")
      case True
      have "take 4 (drop 3 s) @ drop 4 (drop 3 s) = drop 3 s" by (rule append_take_drop_id)
      moreover have "take 3 s @ drop 3 s = s" by (rule append_take_drop_id)
      ultimately have "s = (take 3 s @ take 4 (drop 3 s)) @ drop 4 (drop 3 s)"
        by (simp only: append_assoc)
      then show ?thesis by (simp only: True if_True refl) blast
    next
      case False
      have "s = take 3 s @ drop 3 s" by simp
      then show ?thesis by (simp only: False if_False) blast
    qed
    moreover from assms t3 obtain cs where "dropWhile isspace ?r = CHR ''{'' # cs" "lazy_body ''{'' cs = Some g"
      by (auto simp: match_fence_at_def Let_def split: if_splits list.splits)
    ultimately show ?thesis using that by blast
  qed
  from s obtain q where q: "s = q @ r" by blast
  have "r = takeWhile isspace r @ CHR ''{'' # cs"
    using takeWhile_dropWhile_id [of isspace r] r(1) by simp
  moreover obtain b c where "cs = b @ ''}'' @ c"
    using lazy_body_Some [OF r(2)] split_list [of "CHR ''}''" cs] by auto
  ultimately have "s = (q @ takeWhile isspace r) @ ''{'' @ b @ ''}'' @ c" using q by simp
  then show ?thesis by blast
qed

lemma search_fence_braces:
  "search_fence s = Some g \<Longrightarrow> \<exists>a b c. s = a @ ''{'' @ b @ ''}'' @ c"
proof (induction s)
  case Nil
  then show ?case by simp
next
  case (Cons x s)
  show ?case
  proof (cases "match_fence_at (x # s)")
    case Some
    then show ?thesis by (rule match_fence_at_braces)
  next
    case None
    then have "search_fence s = Some g" using Cons.prems by simp
    then obtain a b c where "s = a @ ''{'' @ b @ ''}'' @ c" using Cons.IH by blast
    then have "x # s = (x # a) @ ''{'' @ b @ ''}'' @ c" by simp
    then show ?thesis by blast
  qed
qed

lemma search_fence_no_backtick: "CHR 0x60 \<notin> set s \<Longrightarrow> search_fence s = None"
  by (induction s) (auto simp: match_fence_at_def)

lemma search_fence_skip:
  "CHR 0x60 \<notin> set pre \<Longrightarrow> match_fence_at f = Some g \<Longrightarrow> search_fence (pre @ f) = Some g"
proof (induction pre)
  case Nil
  then show ?case by (cases f) (auto simp: match_fence_at_def)
next
  case (Cons x pre)
  then have "match_fence_at (x # pre @ f) = None" by (auto simp: match_fence_at_def)
  then show ?case using Cons by simp
qed

lemma dropWhile_space_head:
  assumes "CHR 0x60 \<notin> set cs"
  shows "take 3 (dropWhile isspace (cs @ CHR ''}'' # x)) \<noteq> ''```''"
proof -
  have ns: "\<not> isspace CHR ''}''" by (simp add: isspace_def)
  obtain d ds where d: "dropWhile isspace (cs @ CHR ''}'' # x) = d # ds"
    using ns by (cases "dropWhile isspace (cs @ CHR ''}'' # x)") (auto simp: dropWhile_eq_Nil_conv)
  have "d \<in> set (dropWhile isspace (cs @ CHR ''}'' # x))" by (simp add: d)
  have "hd (dropWhile isspace (cs @ CHR ''}'' # x)) \<in> set cs \<union> {CHR ''}''}"
  proof (cases "\<forall>c\<in>set cs. isspace c")
    case True
    then show ?thesis using ns dropWhile_spaces [of cs "CHR ''}''" x] by simp
  next
    case False
    then have "dropWhile isspace cs \<noteq> []" by (simp add: dropWhile_eq_Nil_conv)
    then obtain e es where e: "dropWhile isspace cs = e # es" by (cases "dropWhile isspace cs") auto
    then have "dropWhile isspace (cs @ CHR ''}'' # x) = e # (es @ CHR ''}'' # x)"
      by (rule dropWhile_append_keep)
    moreover have "e \<in> set cs" using e set_dropWhileD [of e isspace cs] by simp
    ultimately show ?thesis by simp
  qed
  then have "d \<noteq> CHR 0x60" using assms d by auto
  then show ?thesis by (simp add: d)
qed

lemma lazy_body_whole:
  assumes "CHR 0x60 \<notin> set body" and "\<forall>c\<in>set ws. isspace c"
  shows "lazy_body acc (body @ ''}'' @ ws @ ''```'' @ post) = Some (acc @ body @ ''}'')"
  using assms(1)
proof (induction body arbitrary: acc)
  case Nil
  have "\<not> isspace (CHR 0x60)" by (simp add: isspace_def)
  then have "dropWhile isspace (ws @ ''```'' @ post) = ''```'' @ post"
    using dropWhile_spaces [OF assms(2), of "CHR 0x60" "''``'' @ post"] by simp
  then show ?case by simp
next
  case (Cons c cs)
  have "take 3 (dropWhile isspace (cs @ CHR ''}'' # (ws @ ''```'' @ post))) \<noteq> ''```''"
    using Cons.prems by (intro dropWhile_space_head) simp
  then have "lazy_body acc ((c # cs) @ ''}'' @ ws @ ''```'' @ post)
             = lazy_body (acc @ [c]) (cs @ ''}'' @ ws @ ''```'' @ post)"
    by simp
  also have "\<dots> = Some ((acc @ [c]) @ cs @ ''}'')" using Cons by simp
  finally show ?case by simp
qed

lemma match_fence_at_block:
  assumes "CHR 0x60 \<notin> set body" and "\<forall>c\<in>set ws1. isspace c" and "\<forall>c\<in>set ws2. isspace c"
    and "tag = ''json'' \<or> tag = []"
  shows "match_fence_at (''```'' @ tag @ ws1 @ CHR ''{'' # body @ ''}'' @ ws2 @ ''```'' @ post)
         = Some (CHR ''{'' # body @ ''}'')"
proof -
  let ?rest = "ws1 @ CHR ''{'' # body @ ''}'' @ ws2 @ ''```'' @ post"
  have nj: "take 4 ?rest \<noteq> ''json''"
    using assms(2) by (cases ws1) (auto simp: isspace_def)
  have "\<not> isspace CHR ''{''" by (simp add: isspace_def)
  then have d: "dropWhile isspace ?rest = CHR ''{'' # body @ ''}'' @ ws2 @ ''```'' @ post"
    using dropWhile_spaces [OF assms(2)] by simp
  have l: "lazy_body ''{'' (body @ ''}'' @ ws2 @ ''```'' @ post) = Some (''{'' @ body @ ''}'')"
    using assms(1,3) by (rule lazy_body_whole)
  from assms(4) show ?thesis
  proof
    assume "tag = ''json''"
    then show ?thesis using d l by (simp add: match_fence_at_def)
  next
    assume "tag = []"
    then show ?thesis using nj d l by (simp add: match_fence_at_def Let_def)
  qed
qed

text \<open>
  C1, as the code has it. \<open>extract_json_from_text\<close> returns what the parser makes of
  the whole text; failing that, of the leftmost fenced block (the fence, an optional
  \<open>json\<close>, whitespace, then from a \<open>{\<close> to the first \<open>}\<close> that whitespace and a fence
  follow); failing that, of the text from the first \<open>{\<close> to the last \<open>}\<close>. For an object
  \<open>J\<close> = \<open>{\<close>\<open>body\<close>\<open>}\<close> that parses to \<open>v\<close>: \<open>J\<close> alone gives \<open>v\<close>; \<open>J\<close> in a fence with the tag
  \<open>json\<close> or none gives \<open>v\<close> when neither \<open>J\<close> nor the text before the fence has a
  backtick; \<open>J\<close> between prose gives \<open>v\<close> when the prose has no \<open>{\<close> before \<open>J\<close> and no
  \<open>}\<close> after it and no fenced block of the text parses to another value (none exists
  in a text without backticks); each time provided the whole text is no JSON itself.
  A text that is no JSON and has no \<open>{\<close> with a \<open>}\<close> after it raises the error with the
  first 200 characters of the text.
\<close>

theorem extract_json_strategies:
  "(loads txt = Some v \<longrightarrow> extract_json_from_text loads txt = Inr v) \<and>
   (loads txt = None \<and> search_fence txt = Some g \<and> loads g = Some v \<longrightarrow>
      extract_json_from_text loads txt = Inr v) \<and>
   (loads txt = None \<and>
    (search_fence txt = None \<or> (\<exists>f. search_fence txt = Some f \<and> loads f = None)) \<and>
    search_braces txt = Some g \<and> loads g = Some v \<longrightarrow>
      extract_json_from_text loads txt = Inr v) \<and>
   (loads (CHR ''{'' # body @ ''}'') = Some v \<longrightarrow>
      extract_json_from_text loads (CHR ''{'' # body @ ''}'') = Inr v \<and>
      ((tag = ''json'' \<or> tag = []) \<and> CHR 0x60 \<notin> set pre \<and> CHR 0x60 \<notin> set body \<and>
       (\<forall>c\<in>set ws1. isspace c) \<and> (\<forall>c\<in>set ws2. isspace c) \<and>
       loads (pre @ ''```'' @ tag @ ws1 @ CHR ''{'' # body @ ''}'' @ ws2 @ ''```'' @ post) = None \<longrightarrow>
         extract_json_from_text loads
           (pre @ ''```'' @ tag @ ws1 @ CHR ''{'' # body @ ''}'' @ ws2 @ ''```'' @ post) = Inr v) \<and>
      (CHR ''{'' \<notin> set pre \<and> CHR ''}'' \<notin> set post \<and>
       loads (pre @ CHR ''{'' # body @ ''}'' @ post) = None \<and>
       (search_fence (pre @ CHR ''{'' # body @ ''}'' @ post) = None \<or>
        (\<exists>f. search_fence (pre @ CHR ''{'' # body @ ''}'' @ post) = Some f \<and>
             (loads f = None \<or> loads f = Some v))) \<longrightarrow>
         extract_json_from_text loads (pre @ CHR ''{'' # body @ ''}'' @ post) = Inr v) \<and>
      (CHR 0x60 \<notin> set (pre @ CHR ''{'' # body @ ''}'' @ post) \<longrightarrow>
         search_fence (pre @ CHR ''{'' # body @ ''}'' @ post) = None)) \<and>
   (loads txt = None \<and> (\<forall>a b c. txt \<noteq> a @ ''{'' @ b @ ''}'' @ c) \<longrightarrow>
      extract_json_from_text loads txt
        = Inl (ValueError (''Could not extract valid JSON from response: '' @ take 200 txt @ ''...'')))"
proof (intro conjI impI)
  show "extract_json_from_text loads txt = Inr v" if "loads txt = Some v"
    using that by (simp add: extract_json_from_text_def)
  show "extract_json_from_text loads txt = Inr v"
    if "loads txt = None \<and> search_fence txt = Some g \<and> loads g = Some v"
    using that by (simp add: extract_json_from_text_def)
  show "extract_json_from_text loads txt = Inr v"
    if "loads txt = None \<and>
      (search_fence txt = None \<or> (\<exists>f. search_fence txt = Some f \<and> loads f = None)) \<and>
      search_braces txt = Some g \<and> loads g = Some v"
    using that by (auto simp: extract_json_from_text_def)
next
  assume J: "loads (CHR ''{'' # body @ ''}'') = Some v"
  then show "extract_json_from_text loads (CHR ''{'' # body @ ''}'') = Inr v"
    by (simp add: extract_json_from_text_def)
  show "search_fence (pre @ CHR ''{'' # body @ ''}'' @ post) = None"
    if "CHR 0x60 \<notin> set (pre @ CHR ''{'' # body @ ''}'' @ post)"
    using that by (rule search_fence_no_backtick)
  {
    let ?t = "pre @ ''```'' @ tag @ ws1 @ CHR ''{'' # body @ ''}'' @ ws2 @ ''```'' @ post"
    assume h: "(tag = ''json'' \<or> tag = []) \<and> CHR 0x60 \<notin> set pre \<and> CHR 0x60 \<notin> set body \<and>
       (\<forall>c\<in>set ws1. isspace c) \<and> (\<forall>c\<in>set ws2. isspace c) \<and> loads ?t = None"
    have "match_fence_at (''```'' @ tag @ ws1 @ CHR ''{'' # body @ ''}'' @ ws2 @ ''```'' @ post)
          = Some (CHR ''{'' # body @ ''}'')"
      using h by (intro match_fence_at_block) simp_all
    then have "search_fence ?t = Some (CHR ''{'' # body @ ''}'')"
      using h search_fence_skip [of pre] by blast
    then show "extract_json_from_text loads ?t = Inr v"
      using h J by (simp add: extract_json_from_text_def)
  }
  {
    let ?t = "pre @ CHR ''{'' # body @ ''}'' @ post"
    assume h: "CHR ''{'' \<notin> set pre \<and> CHR ''}'' \<notin> set post \<and> loads ?t = None \<and>
       (search_fence ?t = None \<or>
        (\<exists>f. search_fence ?t = Some f \<and> (loads f = None \<or> loads f = Some v)))"
    have b: "search_braces ?t = Some (CHR ''{'' # body @ ''}'')"
      using h by (intro search_braces_between) simp_all
    from h have "search_fence ?t = None \<or>
        (\<exists>f. search_fence ?t = Some f \<and> (loads f = None \<or> loads f = Some v))" by blast
    then show "extract_json_from_text loads ?t = Inr v"
      using h b J by (auto simp: extract_json_from_text_def)
  }
next
  assume h: "loads txt = None \<and> (\<forall>a b c. txt \<noteq> a @ ''{'' @ b @ ''}'' @ c)"
  then have b: "search_braces txt = None" by (simp add: search_braces_None)
  have "search_fence txt = None"
  proof (cases "search_fence txt")
    case (Some f)
    then show ?thesis using search_fence_braces [OF Some] h by blast
  qed simp
  then show "extract_json_from_text loads txt
        = Inl (ValueError (''Could not extract valid JSON from response: '' @ take 200 txt @ ''...''))"
    using h b by (simp add: extract_json_from_text_def parse_error_def)
qed

theorem extract_json_strategies_witness:
  "extract_json_from_text sample_loads ''{}'' = Inr (JDict []) \<and>
   extract_json_from_text sample_loads
      (''Here it is: '' @ ''```'' @ ''json'' @ [CHR 0x0A] @ CHR ''{'' # [] @ ''}'' @ [CHR 0x0A] @ ''```''
        @ '' Good luck!'') = Inr (JDict []) \<and>
   extract_json_from_text sample_loads (''Sure! '' @ CHR ''{'' # [] @ ''}'' @ '' Hope it helps.'')
     = Inr (JDict []) \<and>
   extract_json_from_text sample_loads ''no json here''
     = Inl (ValueError (''Could not extract valid JSON from response: '' @ ''no json here'' @ ''...''))"
proof -
  have n: "\<forall>a b c. ''no json here'' \<noteq> a @ ''{'' @ b @ ''}'' @ c"
  proof (intro allI notI)
    fix a b c :: string
    assume "''no json here'' = a @ ''{'' @ b @ ''}'' @ c"
    then have "set ''no json here'' = set (a @ ''{'' @ b @ ''}'' @ c)" by (rule arg_cong)
    then have "CHR ''{'' \<in> set ''no json here''" by simp
    then show False by simp
  qed
  show ?thesis
    using
      extract_json_strategies [of sample_loads "''no json here''" "JDict []" "[]" "[]"
        "''json''" "''Here it is: ''" "[CHR 0x0A]" "[CHR 0x0A]" "'' Good luck!''"]
      extract_json_strategies [of sample_loads "''no json here''" "JDict []" "[]" "[]"
        "''json''" "''Sure! ''" "[CHR 0x0A]" "[CHR 0x0A]" "'' Hope it helps.''"]
      n
    by (simp add: sample_loads_def isspace_def)
qed

text \<open>
  The claim as it is written fails where the prose has a brace of its own: the object
  \<open>{}\<close> alone is parsed, after the words \<open>Use {name}:\<close> nothing is, the text from the
  first \<open>{\<close> to the last \<open>}\<close> being \<open>{name}: {}\<close>. And a text without braces that is JSON,
  as \<open>[]\<close>, raises no error.
\<close>

theorem extract_json_prose_counterexample:
  "extract_json_from_text sample_loads ''{}'' = Inr (JDict []) \<and>
   extract_json_from_text sample_loads ''Use {name}: {}''
     = Inl (ValueError ''Could not extract valid JSON from response: Use {name}: {}...'') \<and>
   search_braces ''[]'' = None \<and>
   extract_json_from_text sample_loads ''[]'' = Inr (JList [])"
  by (simp add: extract_json_from_text_def sample_loads_def search_braces_def
      match_fence_at_def parse_error_def)

section \<open>Story content: the checks before the service is called\<close>

lemma dropWhile_all: "\<forall>c\<in>set (dropWhile P s). P c \<Longrightarrow> dropWhile P s = []"
proof (cases "dropWhile P s")
  case (Cons c cs)
  assume a: "\<forall>c\<in>set (dropWhile P s). P c"
  have "\<not> P c" using Cons by (rule dropWhile_head)
  moreover have "P c" using a Cons by simp
  ultimately show ?thesis by simp
qed simp

lemma strip_empty_iff: "strip s = [] \<longleftrightarrow> (\<forall>c\<in>set s. isspace c)"
proof
  assume "strip s = []"
  then have "dropWhile isspace (rev (dropWhile isspace s)) = []" by (simp add: strip_def)
  then have "\<forall>c\<in>set (dropWhile isspace s). isspace c" by (simp add: dropWhile_eq_Nil_conv)
  then have "dropWhile isspace s = []" by (rule dropWhile_all)
  then show "\<forall>c\<in>set s. isspace c" by (simp add: dropWhile_eq_Nil_conv)
next
  assume "\<forall>c\<in>set s. isspace c"
  then have d: "dropWhile isspace s = []" by simp
  show "strip s = []" by (simp only: strip_def d rev.simps dropWhile.simps)
qed

text \<open>
  C7, as the code has it. When at least one output is asked for and the story of the
  profile or the job description is empty or whitespace only, \<open>generate_story_content\<close>
  raises a \<open>ValueError\<close> and has sent nothing to the service. When no output is asked
  for it returns the empty dictionary, again without a request, whatever the story and
  the job description are.
\<close>

theorem generate_story_content_preconditions:
  "((include_why \<or> include_cover_letter) \<and>
    ((\<forall>c\<in>set (my_story profile). isspace c) \<or> (\<forall>c\<in>set job_desc. isspace c)) \<longrightarrow>
      (\<exists>m. generate_story_content loads create model profile job_desc include_why
              include_cover_letter extra_knowledge = ([], Inl (ValueError m)))) \<and>
   (\<not> include_why \<and> \<not> include_cover_letter \<longrightarrow>
      generate_story_content loads create model profile job_desc include_why
        include_cover_letter extra_knowledge = ([], Inr []))"
  by (auto simp: generate_story_content_def strip_empty_iff)

theorem generate_story_content_preconditions_witness:
  "generate_story_content sample_loads sample_create ''claude-sonnet-4-5'' sample_profile
     ''Backend engineer wanted'' True False None
     = ([], Inl (ValueError ''Please add content to 'My Story' in your profile before generating story-based responses.'')) \<and>
   generate_story_content sample_loads sample_create ''claude-sonnet-4-5''
     (sample_profile\<lparr>my_story := ''I grew up fixing radios.''\<rparr>) ''   '' False True None
     = ([], Inl (ValueError ''A job description is required to tailor story-based responses.''))"
proof -
  obtain m1 where 1: "generate_story_content sample_loads sample_create ''claude-sonnet-4-5''
      sample_profile ''Backend engineer wanted'' True False None = ([], Inl (ValueError m1))"
    using generate_story_content_preconditions [of True False sample_profile
        "''Backend engineer wanted''" sample_loads sample_create "''claude-sonnet-4-5''" None]
    by (auto simp: sample_profile_def)
  obtain m2 where 2: "generate_story_content sample_loads sample_create ''claude-sonnet-4-5''
      (sample_profile\<lparr>my_story := ''I grew up fixing radios.''\<rparr>) ''   '' False True None
      = ([], Inl (ValueError m2))"
    using generate_story_content_preconditions [of False True
        "sample_profile\<lparr>my_story := ''I grew up fixing radios.''\<rparr>"
        "''   ''" sample_loads sample_create "''claude-sonnet-4-5''" None]
    by (auto simp: isspace_def)
  have s: "strip ''   '' = []" "strip ''I grew up fixing radios.'' \<noteq> []"
    by (simp_all add: strip_def isspace_def)
  show ?thesis
    using 1 2 s by (simp add: generate_story_content_def sample_profile_def)
qed

text \<open>
  The claim as it is written fails when no output is asked for, which is the default of
  both flags: with an empty story and an empty job description the function returns the
  empty dictionary and raises nothing.
\<close>

theorem generate_story_content_no_output_counterexample:
  "generate_story_content sample_loads sample_create ''claude-sonnet-4-5'' sample_profile
     [] False False None = ([], Inr []) \<and> my_story sample_profile = []"
  by (simp add: generate_story_content_def sample_profile_def)

section \<open>The exporters and absent keys\<close>

lemma collect_ok:
  "(\<And>x. x \<in> set xs \<Longrightarrow> \<exists>ys. f x = Inr ys) \<Longrightarrow> \<exists>zs. collect f xs = Inr zs"
proof (induction xs)
  case Nil
  show ?case by simp
next
  case (Cons x xs)
  obtain ys where "f x = Inr ys" using Cons.prems [of x] by auto
  moreover obtain zs where "collect f xs = Inr zs" using Cons by auto
  ultimately show ?case by simp
qed

text \<open>
  The DOCX exporter reads one key without a default, the company of an experience; the
  text exporter reads six; with those present both complete, whatever else is absent.
\<close>

lemma export_to_docx_completes:
  assumes "\<forall>xp\<in>set (get_or (rd_experience rd) []). rx_company xp \<noteq> None"
  shows "\<exists>doc. export_to_docx rd = Inr doc"
proof -
  have 1: "\<exists>r. docx_section ''EDUCATION'' docx_education (rd_education rd) = Inr r"
    using collect_ok [of "the (rd_education rd)" docx_education]
    by (auto simp: docx_section_def docx_education_def)
  have "\<exists>zs. collect docx_experience (the (rd_experience rd)) = Inr zs"
    if "given (rd_experience rd)"
  proof (rule collect_ok)
    fix x assume "x \<in> set (the (rd_experience rd))"
    then have "rx_company x \<noteq> None"
      using assms that by (auto simp: given_def get_or_def split: option.splits)
    then show "\<exists>ys. docx_experience x = Inr ys"
      by (auto simp: docx_experience_def subscript_def)
  qed
  then have 2: "\<exists>r. docx_section ''PROFESSIONAL EXPERIENCE'' docx_experience (rd_experience rd) = Inr r"
    by (auto simp: docx_section_def)
  have 3: "\<exists>r. docx_section ''PROJECTS'' docx_project (rd_projects rd) = Inr r"
    using collect_ok [of "the (rd_projects rd)" docx_project]
    by (auto simp: docx_section_def docx_project_def)
  from 1 2 3 show ?thesis by (auto simp: export_to_docx_def Let_def)
qed

lemma export_to_txt_completes:
  assumes "\<forall>xp\<in>set (get_or (rd_experience rd) []). rx_title xp \<noteq> None \<and> rx_company xp \<noteq> None"
    and "\<forall>p\<in>set (get_or (rd_projects rd) []). rp_name p \<noteq> None \<and> rp_description p \<noteq> None"
    and "\<forall>e\<in>set (get_or (rd_education rd) []). re_degree e \<noteq> None \<and> re_institution e \<noteq> None"
  shows "\<exists>out. export_to_txt rd = Inr out"
proof -
  have "\<exists>zs. collect txt_experience (the (rd_experience rd)) = Inr zs"
    if "given (rd_experience rd)"
  proof (rule collect_ok)
    fix x assume "x \<in> set (the (rd_experience rd))"
    then have "rx_title x \<noteq> None \<and> rx_company x \<noteq> None"
      using assms(1) that by (auto simp: given_def get_or_def split: option.splits)
    then show "\<exists>ys. txt_experience x = Inr ys"
      by (auto simp: txt_experience_def subscript_def Let_def)
  qed
  then have 1: "\<exists>r. txt_section ''PROFESSIONAL EXPERIENCE'' txt_experience (rd_experience rd) = Inr r"
    by (auto simp: txt_section_def)
  have "\<exists>zs. collect txt_project (the (rd_projects rd)) = Inr zs"
    if "given (rd_projects rd)"
  proof (rule collect_ok)
    fix x assume "x \<in> set (the (rd_projects rd))"
    then have "rp_name x \<noteq> None \<and> rp_description x \<noteq> None"
      using assms(2) that by (auto simp: given_def get_or_def split: option.splits)
    then show "\<exists>ys. txt_project x = Inr ys"
      by (auto simp: txt_project_def subscript_def Let_def)
  qed
  then have 2: "\<exists>r. txt_section ''PROJECTS'' txt_project (rd_projects rd) = Inr r"
    by (auto simp: txt_section_def)
  have "\<exists>zs. collect txt_education (the (rd_education rd)) = Inr zs"
    if "given (rd_education rd)"
  proof (rule collect_ok)
    fix x assume "x \<in> set (the (rd_education rd))"
    then have "re_degree x \<noteq> None \<and> re_institution x \<noteq> None"
      using assms(3) that by (auto simp: given_def get_or_def split: option.splits)
    then show "\<exists>ys. txt_education x = Inr ys"
      by (auto simp: txt_education_def subscript_def Let_def)
  qed
  then have 3: "\<exists>r. txt_section ''EDUCATION'' txt_education (rd_education rd) = Inr r"
    by (auto simp: txt_section_def)
  from 1 2 3 show ?thesis by (auto simp: export_to_txt_def Let_def)
qed

text \<open>
  The PDF exporter needs the same six keys, and for a project with technologies the key
  \<open>technatives\<close>: a project that has its name and its technologies, first in a resume
  without experience, makes it raise \<open>KeyError\<close>.
\<close>

lemma export_to_pdf_completes:
  assumes "\<forall>xp\<in>set (get_or (rd_experience rd) []). rx_title xp \<noteq> None \<and> rx_company xp \<noteq> None"
    and "\<forall>p\<in>set (get_or (rd_projects rd) []). rp_name p \<noteq> None \<and> rp_description p \<noteq> None \<and>
           (given (rp_technologies p) \<longrightarrow> rp_technatives p \<noteq> None)"
    and "\<forall>e\<in>set (get_or (rd_education rd) []). re_degree e \<noteq> None \<and> re_institution e \<noteq> None"
  shows "\<exists>out. export_to_pdf rd = Inr out"
proof -
  have "\<exists>zs. collect pdf_experience (the (rd_experience rd)) = Inr zs"
    if "given (rd_experience rd)"
  proof (rule collect_ok)
    fix x assume "x \<in> set (the (rd_experience rd))"
    then have "rx_title x \<noteq> None \<and> rx_company x \<noteq> None"
      using assms(1) that by (auto simp: given_def get_or_def split: option.splits)
    then show "\<exists>ys. pdf_experience x = Inr ys"
      by (auto simp: pdf_experience_def subscript_def Let_def)
  qed
  then have 1: "\<exists>r. pdf_section ''PROFESSIONAL EXPERIENCE'' pdf_experience (rd_experience rd) = Inr r"
    by (auto simp: pdf_section_def)
  have "\<exists>zs. collect pdf_project (the (rd_projects rd)) = Inr zs"
    if "given (rd_projects rd)"
  proof (rule collect_ok)
    fix x assume "x \<in> set (the (rd_projects rd))"
    then have "rp_name x \<noteq> None \<and> rp_description x \<noteq> None \<and>
           (given (rp_technologies x) \<longrightarrow> rp_technatives x \<noteq> None)"
      using assms(2) that by (auto simp: given_def get_or_def split: option.splits)
    then show "\<exists>ys. pdf_project x = Inr ys"
      by (auto simp: pdf_project_def subscript_def Let_def)
  qed
  then have 2: "\<exists>r. pdf_section ''PROJECTS'' pdf_project (rd_projects rd) = Inr r"
    by (auto simp: pdf_section_def)
  have "\<exists>zs. collect pdf_education (the (rd_education rd)) = Inr zs"
    if "given (rd_education rd)"
  proof (rule collect_ok)
    fix x assume "x \<in> set (the (rd_education rd))"
    then have "re_degree x \<noteq> None \<and> re_institution x \<noteq> None"
      using assms(3) that by (auto simp: given_def get_or_def split: option.splits)
    then show "\<exists>ys. pdf_education x = Inr ys"
      by (auto simp: pdf_education_def subscript_def Let_def)
  qed
  then have 3: "\<exists>r. pdf_section ''EDUCATION'' pdf_education (rd_education rd) = Inr r"
    by (auto simp: pdf_section_def)
  from 1 2 3 show ?thesis by (auto simp: export_to_pdf_def Let_def)
qed

lemma export_to_pdf_technologies:
  assumes "\<not> given (rd_experience rd)" and "rd_projects rd = Some (p # ps)"
    and "rp_name p \<noteq> None" and "given (rp_technologies p)" and "rp_technatives p = None"
  shows "export_to_pdf rd = Inl (KeyError ''technatives'')"
  using assms
  by (auto simp: export_to_pdf_def pdf_section_def pdf_project_def subscript_def given_def Let_def)

text \<open>
  C9. For the resume with a name and one project that lists its technologies, every
  other key absent, the text exporter and the DOCX exporter complete and leave out the
  absent sections, and the PDF exporter raises \<open>KeyError\<close> for the key \<open>technatives\<close>.
\<close>

theorem export_to_pdf_key_error:
  "export_to_pdf sample_resume = Inl (KeyError ''technatives'') \<and>
   export_to_txt sample_resume
     = Inr (join nl [''ADA OBI'', replicate 80 CHR ''='', [], ''PROJECTS'', replicate 80 CHR ''-'',
                     ''Ledger'', ''Technologies: Python'', ''A bookkeeping tool'', []]) \<and>
   export_to_docx sample_resume
     = Inr [Table_cell ''ADA OBI'', Paragraph ''Heading 2'' [''PROJECTS''],
            Paragraph ''No Spacing'' [''Ledger''],
            Paragraph ''No Spacing'' [''Technologies: '', ''Python''],
            Paragraph ''No Spacing'' [''A bookkeeping tool''], Paragraph ''Normal'' []]"
proof -
  have u: "upper ''Ada Obi'' = ''ADA OBI''" by code_simp
  have j: "join '', '' [''Python''] = ''Python''" by simp
  have p: "export_to_pdf sample_resume = Inl (KeyError ''technatives'')"
    using export_to_pdf_technologies [of sample_resume
        "\<lparr>rp_name = Some ''Ledger'', rp_description = Some ''A bookkeeping tool'',
          rp_technologies = Some [''Python''], rp_achievements = None, rp_technatives = None\<rparr>" "[]"]
    by (simp add: sample_resume_def given_def)
  have t: "export_to_txt sample_resume
     = Inr (join nl [''ADA OBI'', replicate 80 CHR ''='', [], ''PROJECTS'', replicate 80 CHR ''-'',
                     ''Ledger'', ''Technologies: Python'', ''A bookkeeping tool'', []])"
    by (simp add: export_to_txt_def txt_header_def txt_section_def txt_project_def
        subscript_def given_def get_or_def personal_get_def sample_resume_def u j
        del: join.simps)
  have d: "export_to_docx sample_resume
     = Inr [Table_cell ''ADA OBI'', Paragraph ''Heading 2'' [''PROJECTS''],
            Paragraph ''No Spacing'' [''Ledger''],
            Paragraph ''No Spacing'' [''Technologies: '', ''Python''],
            Paragraph ''No Spacing'' [''A bookkeeping tool''], Paragraph ''Normal'' []]"
    by (simp add: export_to_docx_def docx_header_def docx_section_def docx_project_def
        docx_education_def docx_experience_def given_def get_or_def personal_get_def
        sample_resume_def u)
  from p t d show ?thesis by blast
qed

end
